theory Spec2Isabelle
  imports Complex_Main
begin

section \<open>Python values\<close>

text \<open>
  The detector keeps and exchanges decoded JSON: results of the reasoning service, database
  rows and the analysers' result dictionaries. A dictionary is an association list in
  insertion order. Python floats are modelled as exact reals, except for the product that the
  summary truncates to a percentage; NaN and the infinities are left out. Strings are byte
  strings, so the character classes of regular expressions and
  \<open>str.lower\<close> are the ASCII ones. A method keeps its name without the leading underscore.
\<close>

datatype json =
    JNull
  | JBool bool
  | JNum real
  | JStr string
  | JList "json list"
  | JObj "(string \<times> json) list"

type_synonym dict = "(string \<times> json) list"

datatype py_error = ValueError | TypeError | AttributeError | KeyError

text \<open>Truth value of an object, as \<open>if x:\<close> and \<open>not x\<close> take it.\<close>

fun truthy :: "json \<Rightarrow> bool" where
  "truthy JNull = False"
| "truthy (JBool b) = b"
| "truthy (JNum r) = (r \<noteq> 0)"
| "truthy (JStr s) = (s \<noteq> [])"
| "truthy (JList xs) = (xs \<noteq> [])"
| "truthy (JObj d) = (d \<noteq> [])"

text \<open>\<open>abs(x)\<close>: defined on numbers (a bool is the integer 0 or 1), TypeError otherwise.\<close>

fun py_abs :: "json \<Rightarrow> py_error + real" where
  "py_abs (JNum r) = Inr \<bar>r\<bar>"
| "py_abs (JBool b) = Inr (if b then 1 else 0)"
| "py_abs _ = Inl TypeError"

text \<open>\<open>d[k] = v\<close>: an existing key keeps its place, a new key goes last.\<close>

fun dict_set :: "dict \<Rightarrow> string \<Rightarrow> json \<Rightarrow> dict" where
  "dict_set [] k v = [(k, v)]"
| "dict_set ((k', v') # d) k v = (if k' = k then (k, v) # d else (k', v') # dict_set d k v)"

text \<open>\<open>d.update(e)\<close> for a dictionary \<open>e\<close>: its items are stored in order.\<close>

definition dict_update :: "dict \<Rightarrow> dict \<Rightarrow> dict" where
  "dict_update d e = fold (\<lambda>(k, v) acc. dict_set acc k v) e d"

section \<open>The detector's state\<close>

text \<open>
  The fields of \<open>ReceiptFraudDetector\<close> that scoring, merging and the summary read. The
  four text fields written by the OCR analysis are read by none of the functions below.
\<close>

record detector =
  risk_factors :: "json list"
  verification_results :: dict
  image_analysis_results :: dict
  online_verification_results :: dict
  expense_category :: "string option"

definition init_detector :: detector where
  "init_detector = \<lparr>risk_factors = [], verification_results = [], image_analysis_results = [],
     online_verification_results = [], expense_category = None\<rparr>"

section \<open>Risk score and fraud probability\<close>

datatype category =
  Llm_analysis | Image_analysis | Online_verification | Pattern_analysis | Category_specific

text \<open>The \<open>weights\<close> dictionary of \<open>_calculate_risk_score\<close>.\<close>

fun weights :: "category \<Rightarrow> real" where
  "weights Llm_analysis = 0.3"
| "weights Image_analysis = 0.25"
| "weights Online_verification = 0.15"
| "weights Pattern_analysis = 0.1"
| "weights Category_specific = 0.2"

definition get_llm_risk_score :: "detector \<Rightarrow> real" where
  "get_llm_risk_score st = 0.0"

definition get_image_risk_score :: "detector \<Rightarrow> real" where
  "get_image_risk_score st = 0.0"

definition get_verification_risk_score :: "detector \<Rightarrow> real" where
  "get_verification_risk_score st = 0.0"

definition get_pattern_risk_score :: "detector \<Rightarrow> real" where
  "get_pattern_risk_score st = 0.0"

definition get_verification_confidence :: "detector \<Rightarrow> real" where
  "get_verification_confidence st = 0.0"

text \<open>\<open>'k' in d and not d['k']\<close> on a dictionary.\<close>

definition present_and_falsy :: "dict \<Rightarrow> string \<Rightarrow> bool" where
  "present_and_falsy d k = (case map_of d k of None \<Rightarrow> False | Some v \<Rightarrow> \<not> truthy v)"

text \<open>
  The list \<open>risk_factors\<close> that \<open>_get_category_specific_risk_score\<close> builds from a
  verification dictionary, in two parts: the entry for the price discrepancy, where \<open>abs\<close>
  of a value that is no number raises, and the entries for the failed checks.
\<close>

definition price_discrepancy_values :: "dict \<Rightarrow> py_error + real list" where
  "price_discrepancy_values vr =
     (case map_of vr ''price_discrepancy'' of
        None \<Rightarrow> Inr []
      | Some v \<Rightarrow>
          (case py_abs v of
             Inl e \<Rightarrow> Inl e
           | Inr discrepancy \<Rightarrow>
               Inr (if discrepancy > 0.5 then [1.0]
                    else if discrepancy > 0.2 then [0.7]
                    else if discrepancy > 0.1 then [0.4]
                    else [])))"

definition failed_check_values :: "string \<Rightarrow> dict \<Rightarrow> real list" where
  "failed_check_values cat vr =
     (if present_and_falsy vr ''location_verification'' then [0.8]
      else if present_and_falsy vr ''route_verification'' then [0.8] else [])
     @ (if present_and_falsy vr ''time_verification'' then [0.6]
        else if present_and_falsy vr ''date_verification'' then [0.6] else [])
     @ (if present_and_falsy vr ''service_verification'' then [0.7]
        else if present_and_falsy vr ''restaurant_verification'' then [0.7] else [])
     @ (if cat = ''food'' \<and> present_and_falsy vr ''menu_verification'' then [0.5] else [])"

definition category_risk_values :: "string \<Rightarrow> dict \<Rightarrow> py_error + real list" where
  "category_risk_values cat vr =
     (case price_discrepancy_values vr of
        Inl e \<Rightarrow> Inl e
      | Inr price \<Rightarrow> Inr (price @ failed_check_values cat vr))"

text \<open>
  \<open>_get_category_specific_risk_score\<close>. The entry \<open><category>_verification\<close> defaults to the
  empty dictionary. When it is a truthy value that is no dictionary, every test
  \<open>'k' in verification_results\<close> either raises, finds nothing, or is followed by a subscript
  that raises before anything is appended, so the result is 0.0 on each of those paths too.
\<close>

definition get_category_specific_risk_score :: "detector \<Rightarrow> real" where
  "get_category_specific_risk_score st =
     (case expense_category st of
        None \<Rightarrow> 0.0
      | Some cat \<Rightarrow>
          if cat = [] then 0.0
          else (case map_of (verification_results st) (cat @ ''_verification'') of
                  None \<Rightarrow> 0.0
                | Some v \<Rightarrow>
                    if \<not> truthy v then 0.0
                    else (case v of
                            JObj vr \<Rightarrow>
                              (case category_risk_values cat vr of
                                 Inl e \<Rightarrow> 0.0
                               | Inr fs \<Rightarrow>
                                   if fs \<noteq> [] then sum_list fs / real (length fs) else 0.0)
                          | _ \<Rightarrow> 0.0)))"

text \<open>The \<open>scores\<close> dictionary of \<open>_calculate_risk_score\<close>.\<close>

fun scores :: "detector \<Rightarrow> category \<Rightarrow> real" where
  "scores st Llm_analysis = get_llm_risk_score st"
| "scores st Image_analysis = get_image_risk_score st"
| "scores st Online_verification = get_verification_risk_score st"
| "scores st Pattern_analysis = get_pattern_risk_score st"
| "scores st Category_specific = get_category_specific_risk_score st"

text \<open>
  \<open>sum(score * weights[category] for category, score in scores.items())\<close>: the items come
  in the order the dictionary was written.
\<close>

definition weighted_sum :: "(category \<Rightarrow> real) \<Rightarrow> real" where
  "weighted_sum sc =
     sum_list (map (\<lambda>c. sc c * weights c)
       [Llm_analysis, Image_analysis, Online_verification, Pattern_analysis, Category_specific])"

definition calculate_risk_score :: "detector \<Rightarrow> real" where
  "calculate_risk_score st = weighted_sum (scores st)"

text \<open>The blend returned by \<open>_calculate_fraud_probability\<close>, as a function of its two locals.\<close>

definition fraud_blend :: "real \<Rightarrow> real \<Rightarrow> real" where
  "fraud_blend risk_score verification_confidence =
     (risk_score * 0.7) + (verification_confidence * 0.3)"

definition calculate_fraud_probability :: "detector \<Rightarrow> real" where
  "calculate_fraud_probability st =
     fraud_blend (calculate_risk_score st) (get_verification_confidence st)"

section \<open>Image quality\<close>

definition assess_image_quality :: "real \<Rightarrow> real \<Rightarrow> real \<Rightarrow> real \<Rightarrow> real \<Rightarrow> string" where
  "assess_image_quality blur brightness contrast noise compression =
     (if blur < 100 then ''Poor quality - Image is too blurry''
      else if brightness < 50 \<or> brightness > 200 then ''Poor quality - Incorrect brightness''
      else if contrast < 30 then ''Poor quality - Low contrast''
      else if noise > 20 then ''Poor quality - High noise level''
      else if compression > 0.5 then ''Poor quality - Heavy compression artifacts''
      else ''Good quality'')"

section \<open>Date normalisation\<close>

text \<open>
  \<open>_normalize_date\<close> calls \<open>datetime.strptime\<close> with five formats and prints the first date
  that parses with \<open>strftime('%Y-%m-%d')\<close>. The library is modelled for the directives these
  formats use, after CPython's \<open>_strptime\<close>: the format becomes a regular expression,
  \<open>%m\<close> is \<open>1[0-2]|0[1-9]|[1-9]\<close>, \<open>%d\<close> is \<open>3[0-1]|[1-2]\d|0[1-9]|[1-9]| [1-9]\<close>, \<open>%Y\<close> is
  \<open>\d\d\d\d\<close>, any other character stands for itself; the expression is matched at the start
  of the text by backtracking, the first match must end where the text ends, and the three
  numbers must form a date of the proleptic Gregorian calendar with a year from 1 to 9999.
  Every failure is a ValueError. \<open>strftime\<close> prints month and day with two digits. How it
  prints a year below 1000 depends on the C library: glibc prints the plain number
  (\<open>999\<close>), other libraries pad it with zeros to four digits (\<open>0999\<close>); the flag
  \<open>padded\<close> of the model says which.
\<close>

record date =
  year :: nat
  month :: nat
  day :: nat

datatype field = Month | Day | Year

datatype token = Directive field | Lit char

fun tokens_of :: "string \<Rightarrow> token list" where
  "tokens_of (c # d # r) =
     (if c = CHR ''%'' \<and> d = CHR ''m'' then Directive Month # tokens_of r
      else if c = CHR ''%'' \<and> d = CHR ''d'' then Directive Day # tokens_of r
      else if c = CHR ''%'' \<and> d = CHR ''Y'' then Directive Year # tokens_of r
      else Lit c # tokens_of (d # r))"
| "tokens_of [c] = [Lit c]"
| "tokens_of [] = []"

definition char_between :: "char \<Rightarrow> char \<Rightarrow> char \<Rightarrow> bool" where
  "char_between lo hi c = ((of_char lo :: nat) \<le> of_char c \<and> (of_char c :: nat) \<le> of_char hi)"

definition is_digit :: "char \<Rightarrow> bool" where
  "is_digit c = char_between CHR ''0'' CHR ''9'' c"

definition digit_val :: "char \<Rightarrow> nat" where
  "digit_val c = of_char c - 48"

definition digit_char :: "nat \<Rightarrow> char" where
  "digit_char n = char_of (48 + n)"

text \<open>\<open>int(text)\<close> on the text of a field: blanks around the digits are dropped.\<close>

definition int_of_text :: "string \<Rightarrow> nat" where
  "int_of_text s = foldl (\<lambda>a c. 10 * a + digit_val c) 0 (filter (\<lambda>c. c \<noteq> CHR '' '') s)"

text \<open>One alternative of a field's expression: two characters, or one.\<close>

definition two_chars :: "(char \<Rightarrow> bool) \<Rightarrow> (char \<Rightarrow> bool) \<Rightarrow> string \<Rightarrow> (nat \<times> string) list" where
  "two_chars p q s =
     (case s of
        c1 # c2 # r \<Rightarrow> if p c1 \<and> q c2 then [(int_of_text [c1, c2], r)] else []
      | _ \<Rightarrow> [])"

definition one_char :: "(char \<Rightarrow> bool) \<Rightarrow> string \<Rightarrow> (nat \<times> string) list" where
  "one_char p s =
     (case s of
        c1 # r \<Rightarrow> if p c1 then [(int_of_text [c1], r)] else []
      | _ \<Rightarrow> [])"

text \<open>
  The ways a field matches at the start of a text, in the order backtracking tries them,
  each with the number read and the rest of the text.
\<close>

fun match_field :: "field \<Rightarrow> string \<Rightarrow> (nat \<times> string) list" where
  "match_field Month s =
     two_chars (\<lambda>c. c = CHR ''1'') (char_between CHR ''0'' CHR ''2'') s
     @ two_chars (\<lambda>c. c = CHR ''0'') (char_between CHR ''1'' CHR ''9'') s
     @ one_char (char_between CHR ''1'' CHR ''9'') s"
| "match_field Day s =
     two_chars (\<lambda>c. c = CHR ''3'') (char_between CHR ''0'' CHR ''1'') s
     @ two_chars (char_between CHR ''1'' CHR ''2'') is_digit s
     @ two_chars (\<lambda>c. c = CHR ''0'') (char_between CHR ''1'' CHR ''9'') s
     @ one_char (char_between CHR ''1'' CHR ''9'') s
     @ two_chars (\<lambda>c. c = CHR '' '') (char_between CHR ''1'' CHR ''9'') s"
| "match_field Year s =
     (case s of
        c1 # c2 # c3 # c4 # r \<Rightarrow>
          if is_digit c1 \<and> is_digit c2 \<and> is_digit c3 \<and> is_digit c4
          then [(int_of_text [c1, c2, c3, c4], r)] else []
      | _ \<Rightarrow> [])"

text \<open>All matches of a token list at the start of a text, first match first.\<close>

fun match_tokens :: "token list \<Rightarrow> string \<Rightarrow> ((field \<times> nat) list \<times> string) list" where
  "match_tokens [] s = [([], s)]"
| "match_tokens (Lit c # ts) s =
     (case s of [] \<Rightarrow> [] | x # r \<Rightarrow> if x = c then match_tokens ts r else [])"
| "match_tokens (Directive f # ts) s =
     concat (map (\<lambda>(v, r). map (\<lambda>(vs, r'). ((f, v) # vs, r')) (match_tokens ts r))
       (match_field f s))"

definition is_leap :: "nat \<Rightarrow> bool" where
  "is_leap y = (y mod 4 = 0 \<and> (y mod 100 \<noteq> 0 \<or> y mod 400 = 0))"

definition days_in_month :: "nat \<Rightarrow> nat \<Rightarrow> nat" where
  "days_in_month y m =
     (if m = 2 then (if is_leap y then 29 else 28)
      else if m = 4 \<or> m = 6 \<or> m = 9 \<or> m = 11 then 30 else 31)"

definition valid_date :: "date \<Rightarrow> bool" where
  "valid_date d = (1 \<le> year d \<and> year d \<le> 9999 \<and> 1 \<le> month d \<and> month d \<le> 12
     \<and> 1 \<le> day d \<and> day d \<le> days_in_month (year d) (month d))"

text \<open>A field the format does not name keeps the library's default.\<close>

definition field_value :: "(field \<times> nat) list \<Rightarrow> field \<Rightarrow> nat \<Rightarrow> nat" where
  "field_value vs f dflt = (case map_of vs f of None \<Rightarrow> dflt | Some v \<Rightarrow> v)"

definition strptime :: "string \<Rightarrow> string \<Rightarrow> py_error + date" where
  "strptime date_string fmt =
     (case match_tokens (tokens_of fmt) date_string of
        [] \<Rightarrow> Inl ValueError
      | (vs, rest) # _ \<Rightarrow>
          if rest \<noteq> [] then Inl ValueError
          else (let d = \<lparr>year = field_value vs Year 1900, month = field_value vs Month 1,
                          day = field_value vs Day 1\<rparr>
                in if valid_date d then Inr d else Inl ValueError))"

definition pad2 :: "nat \<Rightarrow> string" where
  "pad2 n = [digit_char (n div 10 mod 10), digit_char (n mod 10)]"

definition pad4 :: "nat \<Rightarrow> string" where
  "pad4 n = [digit_char (n div 1000 mod 10), digit_char (n div 100 mod 10),
             digit_char (n div 10 mod 10), digit_char (n mod 10)]"

text \<open>The decimal text of a natural number, as \<open>str\<close> and an unpadded \<open>%Y\<close> print it.\<close>

fun str_nat :: "nat \<Rightarrow> string" where
  "str_nat n = (if n < 10 then [digit_char n] else str_nat (n div 10) @ [digit_char (n mod 10)])"

declare str_nat.simps [simp del]

text \<open>\<open>date_obj.strftime('%Y-%m-%d')\<close>.\<close>

definition strftime_ymd :: "bool \<Rightarrow> date \<Rightarrow> string" where
  "strftime_ymd padded d =
     (if padded then pad4 (year d) else str_nat (year d))
     @ ''-'' @ pad2 (month d) @ ''-'' @ pad2 (day d)"

definition formats :: "string list" where
  "formats = [''%m/%d/%Y'', ''%d/%m/%Y'', ''%Y-%m-%d'', ''%m-%d-%Y'', ''%d-%m-%Y'']"

text \<open>The loop over the formats: the first that parses wins, else the text is returned.\<close>

fun try_formats :: "bool \<Rightarrow> string list \<Rightarrow> string \<Rightarrow> string" where
  "try_formats padded [] date_str = date_str"
| "try_formats padded (fmt # fmts) date_str =
     (case strptime date_str fmt of
        Inr date_obj \<Rightarrow> strftime_ymd padded date_obj
      | Inl e \<Rightarrow> try_formats padded fmts date_str)"

text \<open>
  \<open>_normalize_date\<close>. On a value that is no string \<open>strptime\<close> raises TypeError, which the
  outer handler answers with the argument itself.
\<close>

fun normalize_date :: "bool \<Rightarrow> json \<Rightarrow> json" where
  "normalize_date padded (JStr date_str) = JStr (try_formats padded formats date_str)"
| "normalize_date padded v = v"

section \<open>OCR cross-validation\<close>

text \<open>
  The structured data of the classical path is a dictionary the detector builds itself; that
  of the model-based path is whatever JSON the reasoning service returned under
  \<open>structured_data\<close>, so it is a value of any shape. \<open>float\<close> on a string is the library's
  parser, a parameter \<open>fl\<close> of the model that answers \<open>None\<close> where the parser raises
  ValueError. Dates are compared after normalisation, so the comparisons take the flag
  \<open>padded\<close> of \<open>strftime\<close>.
\<close>

fun py_float :: "(string \<Rightarrow> real option) \<Rightarrow> json \<Rightarrow> py_error + real" where
  "py_float fl (JNum r) = Inr r"
| "py_float fl (JBool b) = Inr (if b then 1 else 0)"
| "py_float fl (JStr s) = (case fl s of None \<Rightarrow> Inl ValueError | Some r \<Rightarrow> Inr r)"
| "py_float fl v = Inl TypeError"

text \<open>\<open>x.get(k)\<close>: the value or None on a dictionary, AttributeError on anything else.\<close>

fun py_get :: "json \<Rightarrow> string \<Rightarrow> py_error + json" where
  "py_get (JObj d) k = Inr (case map_of d k of None \<Rightarrow> JNull | Some v \<Rightarrow> v)"
| "py_get v k = Inl AttributeError"

text \<open>A number as \<open>==\<close> and \<open>>\<close> see it: a bool counts as 0 or 1.\<close>

fun py_num :: "json \<Rightarrow> real option" where
  "py_num (JNum r) = Some r"
| "py_num (JBool b) = Some (if b then 1 else 0)"
| "py_num v = None"

text \<open>
  \<open>a == b\<close> on decoded JSON: numbers by value, strings and None by identity of content,
  lists element by element, dictionaries (whose keys are distinct) key by key.
\<close>

fun py_eq :: "json \<Rightarrow> json \<Rightarrow> bool" where
  "py_eq JNull b = (b = JNull)"
| "py_eq (JBool x) b = (py_num b = Some (if x then 1 else 0))"
| "py_eq (JNum x) b = (py_num b = Some x)"
| "py_eq (JStr s) b = (b = JStr s)"
| "py_eq (JList xs) b = (case b of JList ys \<Rightarrow> list_all2 py_eq xs ys | _ \<Rightarrow> False)"
| "py_eq (JObj d) b =
     (case b of
        JObj e \<Rightarrow>
          length d = length e
          \<and> list_all (\<lambda>kv. case map_of e (fst kv) of None \<Rightarrow> False | Some w \<Rightarrow> py_eq (snd kv) w) d
      | _ \<Rightarrow> False)"

definition ascii_lower :: "char \<Rightarrow> char" where
  "ascii_lower c = (if char_between CHR ''A'' CHR ''Z'' c then char_of (of_char c + (32::nat)) else c)"

text \<open>
  \<open>_normalize_text\<close>: \<open>re.sub(r'[^a-z0-9]', '', text.lower())\<close>; a value without \<open>lower\<close>
  raises inside and is returned as it is.
\<close>

fun normalize_text :: "json \<Rightarrow> json" where
  "normalize_text (JStr text) =
     JStr (filter (\<lambda>c. char_between CHR ''a'' CHR ''z'' c \<or> char_between CHR ''0'' CHR ''9'' c)
             (map ascii_lower text))"
| "normalize_text v = v"

text \<open>
  The guard \<open>tesseract_data.get(k) and llm_data.get(k)\<close>: the second lookup is made only when
  the first value is truthy. The result is the pair of values when both are truthy.
\<close>

definition field_pair :: "dict \<Rightarrow> json \<Rightarrow> string \<Rightarrow> py_error + (json \<times> json) option" where
  "field_pair tesseract_data llm_data k =
     (case map_of tesseract_data k of
        None \<Rightarrow> Inr None
      | Some a \<Rightarrow>
          if \<not> truthy a then Inr None
          else (case py_get llm_data k of
                  Inl e \<Rightarrow> Inl e
                | Inr b \<Rightarrow> Inr (if truthy b then Some (a, b) else None)))"

text \<open>\<open>abs(float(a) - float(b))\<close>.\<close>

definition amount_gap :: "(string \<Rightarrow> real option) \<Rightarrow> json \<Rightarrow> json \<Rightarrow> py_error + real" where
  "amount_gap fl a b =
     (case py_float fl a of
        Inl e \<Rightarrow> Inl e
      | Inr x \<Rightarrow> (case py_float fl b of Inl e \<Rightarrow> Inl e | Inr y \<Rightarrow> Inr \<bar>x - y\<bar>))"

text \<open>
  A \<open>try\<close> block that is a sequence of statements, each changing a local object only after
  everything it evaluates has succeeded: the statements run in order until one raises; the
  object as it stands then, and the error if any, is what the handler sees.
\<close>

fun run_steps :: "('s \<Rightarrow> py_error + 's) list \<Rightarrow> 's \<Rightarrow> 's \<times> py_error option" where
  "run_steps [] s = (s, None)"
| "run_steps (f # fs) s = (case f s of Inl e \<Rightarrow> (s, Some e) | Inr s' \<Rightarrow> run_steps fs s')"

record validation =
  date_match :: bool
  amount_match :: bool
  vendor_match :: bool
  tax_match :: bool
  overall_match_score :: real

definition init_validation :: validation where
  "init_validation = \<lparr>date_match = False, amount_match = False, vendor_match = False,
     tax_match = False, overall_match_score = 0.0\<rparr>"

definition compare_dates ::
  "bool \<Rightarrow> dict \<Rightarrow> json \<Rightarrow> validation \<Rightarrow> py_error + validation" where
  "compare_dates padded td ld v =
     (case field_pair td ld ''date'' of
        Inl e \<Rightarrow> Inl e
      | Inr None \<Rightarrow> Inr v
      | Inr (Some (a, b)) \<Rightarrow> Inr (v\<lparr>date_match :=
                 py_eq (normalize_date padded a) (normalize_date padded b)\<rparr>))"

definition compare_amounts ::
  "(string \<Rightarrow> real option) \<Rightarrow> dict \<Rightarrow> json \<Rightarrow> validation \<Rightarrow> py_error + validation" where
  "compare_amounts fl td ld v =
     (case field_pair td ld ''total_amount'' of
        Inl e \<Rightarrow> Inl e
      | Inr None \<Rightarrow> Inr v
      | Inr (Some (a, b)) \<Rightarrow>
          (case amount_gap fl a b of
             Inl e \<Rightarrow> Inl e
           | Inr g \<Rightarrow> Inr (v\<lparr>amount_match := g < 0.01\<rparr>)))"

definition compare_vendors :: "dict \<Rightarrow> json \<Rightarrow> validation \<Rightarrow> py_error + validation" where
  "compare_vendors td ld v =
     (case field_pair td ld ''vendor_name'' of
        Inl e \<Rightarrow> Inl e
      | Inr None \<Rightarrow> Inr v
      | Inr (Some (a, b)) \<Rightarrow> Inr (v\<lparr>vendor_match := py_eq (normalize_text a) (normalize_text b)\<rparr>))"

definition compare_taxes ::
  "(string \<Rightarrow> real option) \<Rightarrow> dict \<Rightarrow> json \<Rightarrow> validation \<Rightarrow> py_error + validation" where
  "compare_taxes fl td ld v =
     (case field_pair td ld ''tax_amount'' of
        Inl e \<Rightarrow> Inl e
      | Inr None \<Rightarrow> Inr v
      | Inr (Some (a, b)) \<Rightarrow>
          (case amount_gap fl a b of
             Inl e \<Rightarrow> Inl e
           | Inr g \<Rightarrow> Inr (v\<lparr>tax_match := g < 0.01\<rparr>)))"

text \<open>
  \<open>sum(validation.values())\<close> and \<open>len(validation)\<close>: the dictionary has five entries, the
  four flags (True counts 1) and \<open>overall_match_score\<close> itself.
\<close>

definition sum_values :: "validation \<Rightarrow> real" where
  "sum_values v = of_bool (date_match v) + of_bool (amount_match v) + of_bool (vendor_match v)
     + of_bool (tax_match v) + overall_match_score v"

definition len_validation :: nat where
  "len_validation = 5"

definition set_overall_match_score :: "validation \<Rightarrow> py_error + validation" where
  "set_overall_match_score v = Inr (v\<lparr>overall_match_score := sum_values v / real len_validation\<rparr>)"

text \<open>The four comparisons of \<open>_validate_ocr_results\<close>, in the order of the source.\<close>

definition comparisons ::
  "bool \<Rightarrow> (string \<Rightarrow> real option) \<Rightarrow> dict \<Rightarrow> json
     \<Rightarrow> (validation \<Rightarrow> py_error + validation) list" where
  "comparisons padded fl tesseract_data llm_data =
     [compare_dates padded tesseract_data llm_data,
      compare_amounts fl tesseract_data llm_data,
      compare_vendors tesseract_data llm_data,
      compare_taxes fl tesseract_data llm_data]"

definition validate_ocr_results ::
  "bool \<Rightarrow> (string \<Rightarrow> real option) \<Rightarrow> dict \<Rightarrow> json \<Rightarrow> validation" where
  "validate_ocr_results padded fl tesseract_data llm_data =
     fst (run_steps (comparisons padded fl tesseract_data llm_data @ [set_overall_match_score])
            init_validation)"

text \<open>The error, if any, that sends \<open>_validate_ocr_results\<close> to its handler.\<close>

definition validation_error ::
  "bool \<Rightarrow> (string \<Rightarrow> real option) \<Rightarrow> dict \<Rightarrow> json \<Rightarrow> py_error option" where
  "validation_error padded fl tesseract_data llm_data =
     snd (run_steps (comparisons padded fl tesseract_data llm_data @ [set_overall_match_score])
            init_validation)"

text \<open>The number of match flags that are True.\<close>

definition true_flags :: "validation \<Rightarrow> nat" where
  "true_flags v = of_bool (date_match v) + of_bool (amount_match v) + of_bool (vendor_match v)
     + of_bool (tax_match v)"

record discrepancy =
  field_name :: string
  tesseract_value :: json
  llm_value :: json

definition date_discrepancy ::
  "bool \<Rightarrow> dict \<Rightarrow> json \<Rightarrow> discrepancy list \<Rightarrow> py_error + discrepancy list" where
  "date_discrepancy padded td ld ds =
     (case field_pair td ld ''date'' of
        Inl e \<Rightarrow> Inl e
      | Inr None \<Rightarrow> Inr ds
      | Inr (Some (a, b)) \<Rightarrow>
          Inr (if \<not> py_eq (normalize_date padded a) (normalize_date padded b)
               then ds @ [\<lparr>field_name = ''date'', tesseract_value = a, llm_value = b\<rparr>]
               else ds))"

definition amount_discrepancy ::
  "(string \<Rightarrow> real option) \<Rightarrow> string \<Rightarrow> dict \<Rightarrow> json \<Rightarrow> discrepancy list
     \<Rightarrow> py_error + discrepancy list" where
  "amount_discrepancy fl k td ld ds =
     (case field_pair td ld k of
        Inl e \<Rightarrow> Inl e
      | Inr None \<Rightarrow> Inr ds
      | Inr (Some (a, b)) \<Rightarrow>
          (case amount_gap fl a b of
             Inl e \<Rightarrow> Inl e
           | Inr g \<Rightarrow>
               Inr (if g \<ge> 0.01
                    then ds @ [\<lparr>field_name = k, tesseract_value = a, llm_value = b\<rparr>]
                    else ds)))"

definition vendor_discrepancy :: "dict \<Rightarrow> json \<Rightarrow> discrepancy list \<Rightarrow> py_error + discrepancy list" where
  "vendor_discrepancy td ld ds =
     (case field_pair td ld ''vendor_name'' of
        Inl e \<Rightarrow> Inl e
      | Inr None \<Rightarrow> Inr ds
      | Inr (Some (a, b)) \<Rightarrow>
          Inr (if \<not> py_eq (normalize_text a) (normalize_text b)
               then ds @ [\<lparr>field_name = ''vendor_name'', tesseract_value = a, llm_value = b\<rparr>]
               else ds))"

definition find_discrepancies ::
  "bool \<Rightarrow> (string \<Rightarrow> real option) \<Rightarrow> dict \<Rightarrow> json \<Rightarrow> discrepancy list" where
  "find_discrepancies padded fl tesseract_data llm_data =
     fst (run_steps
       [date_discrepancy padded tesseract_data llm_data,
        amount_discrepancy fl ''total_amount'' tesseract_data llm_data,
        vendor_discrepancy tesseract_data llm_data,
        amount_discrepancy fl ''tax_amount'' tesseract_data llm_data] [])"

text \<open>
  What \<open>_combine_ocr_results\<close> reads of the classical path's result: nothing when that
  analysis failed and returned the empty dictionary, else the best transcript, its confidence
  and the structured data.
\<close>

record tesseract_results =
  best_text :: string
  best_confidence :: real
  tesseract_structured_data :: dict

record combined =
  extracted_text :: json
  structured_data :: json
  confidence_score :: real
  validation_results :: "validation option"
  discrepancies :: "discrepancy list"

definition init_combined :: combined where
  "init_combined = \<lparr>extracted_text = JStr '''', structured_data = JObj [], confidence_score = 0.0,
     validation_results = None, discrepancies = []\<rparr>"

text \<open>\<open>d.get(k, default)\<close> on a dictionary.\<close>

definition get_default :: "dict \<Rightarrow> string \<Rightarrow> json \<Rightarrow> json" where
  "get_default d k dflt = (case map_of d k of None \<Rightarrow> dflt | Some v \<Rightarrow> v)"

definition tesseract_text_of :: "tesseract_results option \<Rightarrow> string" where
  "tesseract_text_of tesseract = (case tesseract of None \<Rightarrow> '''' | Some t \<Rightarrow> best_text t)"

definition tesseract_data_of :: "tesseract_results option \<Rightarrow> dict" where
  "tesseract_data_of tesseract =
     (case tesseract of None \<Rightarrow> [] | Some t \<Rightarrow> tesseract_structured_data t)"

definition tesseract_confidence_of :: "tesseract_results option \<Rightarrow> real" where
  "tesseract_confidence_of tesseract =
     (case tesseract of None \<Rightarrow> 0.0 | Some t \<Rightarrow> best_confidence t)"

text \<open>\<open>confidence_score *= (1 - len(discrepancies) * 0.1)\<close>.\<close>

definition apply_discount :: "real \<Rightarrow> nat \<Rightarrow> real" where
  "apply_discount confidence n = confidence * (1 - real n * 0.1)"

text \<open>
  \<open>_combine_ocr_results\<close>. The comparison \<open>llm_confidence > tesseract_confidence\<close> raises
  TypeError when the service's confidence is no number; the handler then returns the
  dictionary as it was initialised. The confidence is kept as its numeric value.
\<close>

definition combine_ocr_results ::
  "bool \<Rightarrow> (string \<Rightarrow> real option) \<Rightarrow> tesseract_results option \<Rightarrow> dict \<Rightarrow> combined" where
  "combine_ocr_results padded fl tesseract llm_results =
     (let tesseract_text = tesseract_text_of tesseract;
          llm_text = get_default llm_results ''extracted_text'' (JStr '''');
          tesseract_data = tesseract_data_of tesseract;
          llm_data = get_default llm_results ''structured_data'' (JObj []);
          validation = validate_ocr_results padded fl tesseract_data llm_data;
          tesseract_confidence = tesseract_confidence_of tesseract;
          llm_confidence = get_default llm_results ''confidence_score'' (JNum 0.0)
      in case py_num llm_confidence of
           None \<Rightarrow> init_combined
         | Some lc \<Rightarrow>
             (let selected =
                    (if lc > tesseract_confidence
                     then init_combined\<lparr>extracted_text := llm_text, structured_data := llm_data,
                            confidence_score := lc\<rparr>
                     else init_combined\<lparr>extracted_text := JStr tesseract_text,
                            structured_data := JObj tesseract_data,
                            confidence_score := tesseract_confidence\<rparr>);
                  validated = selected\<lparr>validation_results := Some validation\<rparr>;
                  found = find_discrepancies padded fl tesseract_data llm_data
              in if found \<noteq> []
                 then validated\<lparr>discrepancies := found,
                        confidence_score := apply_discount (confidence_score validated) (length found)\<rparr>
                 else validated))"

section \<open>The summary\<close>

text \<open>
  \<open>int(x)\<close> on a float truncates towards zero. \<open>str\<close> of an integer is its decimal text.
  \<open>str\<close> of a decoded JSON value inside an f-string is the library's rendering, a parameter
  \<open>ps\<close> of the model.

  The two percentages are \<open>int(x * 100)\<close> of a float \<open>x\<close>: the product is a binary64
  product, the exact product rounded to the nearest binary64 number, and \<open>int\<close> truncates
  the rounded value. The rounding can cross an integer (the binary64 number just below
  \<open>0.8\<close> times \<open>100\<close> is \<open>80.0\<close>), so the product is a parameter \<open>fm\<close> of the model and
  nothing is assumed of it; \<open>fm x 100 = x * 100\<close> holds where the exact product is a
  binary64 number.
\<close>

definition py_int :: "real \<Rightarrow> int" where
  "py_int x = (if 0 \<le> x then \<lfloor>x\<rfloor> else \<lceil>x\<rceil>)"

definition str_int :: "int \<Rightarrow> string" where
  "str_int i = (if i < 0 then ''-'' @ str_nat (nat (- i)) else str_nat (nat i))"

text \<open>A rendering that is \<open>str\<close> on strings, for examples that render nothing else.\<close>

fun text_of :: "json \<Rightarrow> string" where
  "text_of (JStr s) = s"
| "text_of v = []"

text \<open>The lines \<open>f"- {x}\n"\<close> for the elements of a list.\<close>

definition bullets :: "(json \<Rightarrow> string) \<Rightarrow> json list \<Rightarrow> string" where
  "bullets ps xs = concat (map (\<lambda>x. ''- '' @ ps x @ ''\<newline>'') xs)"

text \<open>
  \<open>indicators[:2]\<close> followed by iteration: the first two elements of a list, the first two
  characters of a string; any other truthy value cannot be sliced.
\<close>

fun first_two :: "json \<Rightarrow> py_error + json list" where
  "first_two (JList xs) = Inr (take 2 xs)"
| "first_two (JStr s) = Inr (map (\<lambda>c. JStr [c]) (take 2 s))"
| "first_two v = Inl TypeError"

definition assessment :: "int \<Rightarrow> string" where
  "assessment fraud_percentage =
     (if fraud_percentage \<ge> 80 then ''HIGH RISK''
      else if fraud_percentage \<ge> 50 then ''MODERATE RISK''
      else ''LOW RISK'')"

definition summary_head :: "(real \<Rightarrow> real \<Rightarrow> real) \<Rightarrow> real \<Rightarrow> real \<Rightarrow> string" where
  "summary_head fm overall_risk_score fraud_probability =
     (let risk_percentage = py_int (fm overall_risk_score 100);
          fraud_percentage = py_int (fm fraud_probability 100)
      in ''Fraud Analysis Summary:\<newline>''
         @ ''Overall Risk Assessment: '' @ assessment fraud_percentage @ ''\<newline>''
         @ ''Fraud Probability: '' @ str_int fraud_percentage @ ''%\<newline>''
         @ ''Risk Score: '' @ str_int risk_percentage @ ''%\<newline>\<newline>'')"

definition key_risk_factors :: "(json \<Rightarrow> string) \<Rightarrow> json list \<Rightarrow> string" where
  "key_risk_factors ps factors =
     (if factors \<noteq> [] then ''Key Risk Factors:\<newline>'' @ bullets ps (take 3 factors) else [])"

text \<open>The two highlight entries; \<open>.get\<close> on an entry that is no dictionary raises.\<close>

definition date_highlight :: "(json \<Rightarrow> string) \<Rightarrow> dict \<Rightarrow> py_error + string" where
  "date_highlight ps vr =
     (case map_of vr ''inconsistent_dates'' of
        None \<Rightarrow> Inr []
      | Some date_info \<Rightarrow>
          (case date_info of
             JObj d \<Rightarrow>
               Inr (if truthy (get_default d ''date_mismatch'' JNull)
                    then ''- Date mismatch detected (Email: ''
                         @ ps (get_default d ''email_date'' JNull) @ '', Receipt: ''
                         @ ps (get_default d ''receipt_date'' JNull) @ '')\<newline>''
                    else [])
           | _ \<Rightarrow> Inl AttributeError))"

definition amount_highlight :: "(json \<Rightarrow> string) \<Rightarrow> dict \<Rightarrow> py_error + string" where
  "amount_highlight ps vr =
     (case map_of vr ''amount_verification'' of
        None \<Rightarrow> Inr []
      | Some amount_info \<Rightarrow>
          (case amount_info of
             JObj d \<Rightarrow>
               Inr (if \<not> truthy (get_default d ''amount_match'' JNull)
                    then ''- Amount mismatch detected (Expected: ''
                         @ ps (get_default d ''expense_data_amount'' JNull) @ '', Receipt: ''
                         @ ps (get_default d ''receipt_amount'' JNull) @ '')\<newline>''
                    else [])
           | _ \<Rightarrow> Inl AttributeError))"

definition verification_highlights :: "(json \<Rightarrow> string) \<Rightarrow> dict \<Rightarrow> py_error + string" where
  "verification_highlights ps vr =
     (if vr = [] then Inr []
      else (case date_highlight ps vr of
              Inl e \<Rightarrow> Inl e
            | Inr dates \<Rightarrow>
                (case amount_highlight ps vr of
                   Inl e \<Rightarrow> Inl e
                 | Inr amounts \<Rightarrow> Inr (''\<newline>Verification Highlights:\<newline>'' @ dates @ amounts))))"

definition image_highlights :: "(json \<Rightarrow> string) \<Rightarrow> dict \<Rightarrow> py_error + string" where
  "image_highlights ps iar =
     (case map_of iar ''manipulation_indicators'' of
        None \<Rightarrow> Inr []
      | Some indicators \<Rightarrow>
          if \<not> truthy indicators then Inr []
          else (case first_two indicators of
                  Inl e \<Rightarrow> Inl e
                | Inr shown \<Rightarrow> Inr (''\<newline>Image Analysis:\<newline>'' @ bullets ps shown)))"

text \<open>
  \<open>_generate_summary\<close>: the text is built piece by piece and returned; when a piece raises,
  the handler returns a fixed text instead.
\<close>

definition generate_summary ::
  "(real \<Rightarrow> real \<Rightarrow> real) \<Rightarrow> (json \<Rightarrow> string) \<Rightarrow> detector \<Rightarrow> real \<Rightarrow> real \<Rightarrow> string" where
  "generate_summary fm ps st overall_risk_score fraud_probability =
     (case verification_highlights ps (verification_results st) of
        Inl e \<Rightarrow> ''Error generating summary''
      | Inr highlights \<Rightarrow>
          (case image_highlights ps (image_analysis_results st) of
             Inl e \<Rightarrow> ''Error generating summary''
           | Inr image_part \<Rightarrow>
               summary_head fm overall_risk_score fraud_probability
               @ key_risk_factors ps (risk_factors st) @ highlights @ image_part))"


section \<open>Category verification and its tools\<close>

text \<open>
  The four verification tools return fixed example dictionaries; \<open>_check_pricing\<close> stamps
  its answer with the time of the call, and \<open>_verify_location\<close> reports a match for each of
  address and coordinates that was given. None of them reads the vendor name.
\<close>

definition search_vendor_info :: "json \<Rightarrow> json" where
  "search_vendor_info vendor_name =
     JObj [(''vendor_exists'', JBool True), (''business_type'', JStr ''Restaurant''),
           (''rating'', JNum 4.5), (''reviews_count'', JNum 100), (''verified'', JBool True)]"

definition check_pricing :: "string \<Rightarrow> json \<Rightarrow> json \<Rightarrow> json \<Rightarrow> json \<Rightarrow> json" where
  "check_pricing now vendor_name service_type location date =
     JObj [(''price_range'', JObj [(''min'', JNum 50.0), (''max'', JNum 100.0),
                                   (''average'', JNum 75.0)]),
           (''currency'', JStr ''USD''), (''last_updated'', JStr now),
           (''source'', JStr ''Online API'')]"

definition verify_location :: "json \<Rightarrow> json \<Rightarrow> json \<Rightarrow> json" where
  "verify_location vendor_name address coordinates =
     JObj [(''location_verified'', JBool True),
           (''address_match'', if truthy address then JBool True else JNull),
           (''coordinates_match'', if truthy coordinates then JBool True else JNull),
           (''distance'', JNum 0.1)]"

definition check_operating_hours :: "json \<Rightarrow> json \<Rightarrow> json \<Rightarrow> json" where
  "check_operating_hours vendor_name date time =
     JObj [(''was_open'', JBool True),
           (''operating_hours'', JObj [(''open'', JStr ''09:00''), (''close'', JStr ''22:00'')]),
           (''special_hours'', JBool False), (''holiday'', JBool False)]"

text \<open>
  A tool call of the service's reply: the function name and the decoded argument text,
  \<open>None\<close> when \<open>json.loads\<close> cannot decode it.
\<close>

record tool_call =
  tool_name :: string
  tool_arguments :: "json option"

text \<open>
  The dispatch on the tool name. An argument the call does not carry is read with \<open>.get\<close>
  and passed on as None; arguments that are no dictionary make \<open>.get\<close> raise.
\<close>

definition execute_tool :: "string \<Rightarrow> string \<Rightarrow> json \<Rightarrow> dict \<Rightarrow> py_error + dict" where
  "execute_tool now name tool_args vr =
     (if name = ''search_vendor_info'' then
        (case py_get tool_args ''vendor_name'' of
           Inl e \<Rightarrow> Inl e
         | Inr v \<Rightarrow> Inr (dict_set vr ''vendor_info'' (search_vendor_info v)))
      else if name = ''check_pricing'' then
        (case py_get tool_args ''vendor_name'' of
           Inl e \<Rightarrow> Inl e
         | Inr v \<Rightarrow>
             Inr (dict_set vr ''pricing_info''
                    (check_pricing now v
                       (get_default (case tool_args of JObj d \<Rightarrow> d | _ \<Rightarrow> []) ''service_type'' JNull)
                       (get_default (case tool_args of JObj d \<Rightarrow> d | _ \<Rightarrow> []) ''location'' JNull)
                       (get_default (case tool_args of JObj d \<Rightarrow> d | _ \<Rightarrow> []) ''date'' JNull))))
      else if name = ''verify_location'' then
        (case py_get tool_args ''vendor_name'' of
           Inl e \<Rightarrow> Inl e
         | Inr v \<Rightarrow>
             Inr (dict_set vr ''location_info''
                    (verify_location v
                       (get_default (case tool_args of JObj d \<Rightarrow> d | _ \<Rightarrow> []) ''address'' JNull)
                       (get_default (case tool_args of JObj d \<Rightarrow> d | _ \<Rightarrow> []) ''coordinates'' JNull))))
      else if name = ''check_operating_hours'' then
        (case py_get tool_args ''vendor_name'' of
           Inl e \<Rightarrow> Inl e
         | Inr v \<Rightarrow>
             Inr (dict_set vr ''operating_hours''
                    (check_operating_hours v
                       (get_default (case tool_args of JObj d \<Rightarrow> d | _ \<Rightarrow> []) ''date'' JNull)
                       (get_default (case tool_args of JObj d \<Rightarrow> d | _ \<Rightarrow> []) ''time'' JNull))))
      else Inr vr)"

text \<open>
  The loop over the tool calls: \<open>results['verification_results']\<close> and
  \<open>results['tool_calls']\<close> as they grow. \<open>clock i\<close> is the time at the i-th call. Argument
  text that cannot be decoded raises (a JSONDecodeError is a ValueError).
\<close>

fun run_tool_calls ::
  "(nat \<Rightarrow> string) \<Rightarrow> nat \<Rightarrow> tool_call list \<Rightarrow> dict \<times> json list \<Rightarrow> py_error + dict \<times> json list" where
  "run_tool_calls clock i [] acc = Inr acc"
| "run_tool_calls clock i (tc # tcs) acc =
     (case tool_arguments tc of
        None \<Rightarrow> Inl ValueError
      | Some tool_args \<Rightarrow>
          (case execute_tool (clock i) (tool_name tc) tool_args (fst acc) of
             Inl e \<Rightarrow> Inl e
           | Inr vr \<Rightarrow>
               run_tool_calls clock (Suc i) tcs
                 (vr, snd acc @
                    [JObj [(''tool_name'', JStr (tool_name tc)), (''arguments'', tool_args),
                           (''result'', get_default vr (tool_name tc @ ''_info'') (JObj []))]])))"

text \<open>\<open>info.get(k)\<close> is truthy, for an entry \<open>info\<close> of the verification results.\<close>

definition entry_truthy :: "json \<Rightarrow> string \<Rightarrow> py_error + bool" where
  "entry_truthy info k = (case py_get info k of Inl e \<Rightarrow> Inl e | Inr v \<Rightarrow> Inr (truthy v))"

text \<open>
  The increments one entry contributes to \<open>confidence_factors\<close>: an increment for each of two
  keys, the second key counted when truthy, or, for the special hours, when falsy.
\<close>

definition entry_factors ::
  "dict \<Rightarrow> string \<Rightarrow> string \<Rightarrow> real \<Rightarrow> string \<Rightarrow> bool \<Rightarrow> real \<Rightarrow> py_error + real list" where
  "entry_factors vr entry k1 w1 k2 negate2 w2 =
     (case map_of vr entry of
        None \<Rightarrow> Inr []
      | Some info \<Rightarrow>
          (case entry_truthy info k1 of
             Inl e \<Rightarrow> Inl e
           | Inr t1 \<Rightarrow>
               (case entry_truthy info k2 of
                  Inl e \<Rightarrow> Inl e
                | Inr t2 \<Rightarrow>
                    Inr ((if t1 then [w1] else []) @ (if t2 \<noteq> negate2 then [w2] else [])))))"

definition calculate_verification_confidence :: "dict \<Rightarrow> real" where
  "calculate_verification_confidence vr =
     (case entry_factors vr ''vendor_info'' ''vendor_exists'' 1.0 ''verified'' False 0.8 of
        Inl e \<Rightarrow> 0.0
      | Inr f1 \<Rightarrow>
     (case entry_factors vr ''pricing_info'' ''price_range'' 0.9 ''last_updated'' False 0.7 of
        Inl e \<Rightarrow> 0.0
      | Inr f2 \<Rightarrow>
     (case entry_factors vr ''location_info'' ''location_verified'' 1.0 ''address_match'' False 0.8 of
        Inl e \<Rightarrow> 0.0
      | Inr f3 \<Rightarrow>
     (case entry_factors vr ''operating_hours'' ''was_open'' 0.9 ''special_hours'' True 0.7 of
        Inl e \<Rightarrow> 0.0
      | Inr f4 \<Rightarrow>
          (let confidence_factors = f1 @ f2 @ f3 @ f4
           in if confidence_factors \<noteq> []
              then sum_list confidence_factors / real (length confidence_factors)
              else 0.0)))))"

text \<open>
  The reply of the reasoning service to the tool-augmented call: the call raised, or it
  carries \<open>tool_calls\<close>, which is None when the service asked for no tool.
\<close>

datatype llm_reply = Call_failed | Reply "tool_call list option"

text \<open>
  \<open>_make_online_verification_call\<close>, an ordinary (not \<open>async\<close>) method: the result
  dictionary, or the empty dictionary when the client is missing or anything raised.
  Iterating \<open>tool_calls\<close> that is None raises TypeError.
\<close>

definition make_online_verification_call :: "bool \<Rightarrow> llm_reply \<Rightarrow> (nat \<Rightarrow> string) \<Rightarrow> json" where
  "make_online_verification_call groq_configured reply clock =
     (if \<not> groq_configured then JObj []
      else (case reply of
              Call_failed \<Rightarrow> JObj []
            | Reply None \<Rightarrow> JObj []
            | Reply (Some tool_calls) \<Rightarrow>
                (case run_tool_calls clock 0 tool_calls ([], []) of
                   Inl e \<Rightarrow> JObj []
                 | Inr (vr, calls) \<Rightarrow>
                     JObj [(''verification_results'', JObj vr), (''tool_calls'', JList calls),
                           (''confidence_score'', JNum (calculate_verification_confidence vr))])))"

datatype prompt = Travel_prompt | Hotel_prompt | Food_prompt

text \<open>\<open>prompts.get(category)\<close>, the prompt texts left out.\<close>

definition get_category_specific_prompt :: "string \<Rightarrow> prompt option" where
  "get_category_specific_prompt cat =
     (if cat = ''travel'' then Some Travel_prompt
      else if cat = ''hotel'' then Some Hotel_prompt
      else if cat = ''food'' then Some Food_prompt
      else None)"

text \<open>
  \<open>await x\<close> on a value that is no awaitable: a dictionary has no \<open>__await__\<close>, so the
  expression raises TypeError once \<open>x\<close> has been evaluated.
\<close>

definition await_plain_value :: "json \<Rightarrow> py_error + json" where
  "await_plain_value x = Inl TypeError"

text \<open>\<open>_extract_risk_factors_from_verification\<close>; any error gives the empty list.\<close>

definition vendor_risk_factors :: "string \<Rightarrow> dict \<Rightarrow> py_error + json list" where
  "vendor_risk_factors cat vr =
     (case map_of vr ''vendor_info'' of
        None \<Rightarrow> Inr []
      | Some info \<Rightarrow>
          (case entry_truthy info ''vendor_exists'' of
             Inl e \<Rightarrow> Inl e
           | Inr ex \<Rightarrow>
               (case entry_truthy info ''verified'' of
                  Inl e \<Rightarrow> Inl e
                | Inr ve \<Rightarrow>
                    Inr ((if \<not> ex then [JStr (''Vendor '' @ cat @ '' not found in online databases'')]
                          else [])
                       @ (if \<not> ve then [JStr (''Vendor '' @ cat @ '' verification status unclear'')]
                          else [])))))"

definition pricing_risk_factors :: "string \<Rightarrow> dict \<Rightarrow> py_error + json list" where
  "pricing_risk_factors cat vr =
     (case map_of vr ''pricing_info'' of
        None \<Rightarrow> Inr []
      | Some info \<Rightarrow>
          (case py_get info ''price_range'' of
             Inl e \<Rightarrow> Inl e
           | Inr price_range \<Rightarrow>
               if \<not> truthy price_range then Inr []
               else (case entry_truthy price_range ''min'' of
                       Inl e \<Rightarrow> Inl e
                     | Inr False \<Rightarrow> Inr []
                     | Inr True \<Rightarrow>
                         (case entry_truthy price_range ''max'' of
                            Inl e \<Rightarrow> Inl e
                          | Inr mx \<Rightarrow>
                              Inr (if mx then [JStr (''Price outside typical range for '' @ cat)]
                                   else [])))))"

definition location_risk_factors :: "string \<Rightarrow> dict \<Rightarrow> py_error + json list" where
  "location_risk_factors cat vr =
     (case map_of vr ''location_info'' of
        None \<Rightarrow> Inr []
      | Some info \<Rightarrow>
          (case entry_truthy info ''location_verified'' of
             Inl e \<Rightarrow> Inl e
           | Inr lv \<Rightarrow>
               (case info of
                  JObj d \<Rightarrow>
                    (case py_num (get_default d ''distance'' (JNum 0)) of
                       None \<Rightarrow> Inl TypeError
                     | Some km \<Rightarrow>
                         Inr ((if \<not> lv then [JStr (''Location verification failed for '' @ cat)]
                               else [])
                            @ (if km > 1.0
                               then [JStr (''Location significantly different from expected for ''
                                            @ cat)]
                               else [])))
                | _ \<Rightarrow> Inl AttributeError)))"

definition hours_risk_factors :: "string \<Rightarrow> dict \<Rightarrow> py_error + json list" where
  "hours_risk_factors cat vr =
     (case map_of vr ''operating_hours'' of
        None \<Rightarrow> Inr []
      | Some info \<Rightarrow>
          (case entry_truthy info ''was_open'' of
             Inl e \<Rightarrow> Inl e
           | Inr wo \<Rightarrow>
               (case entry_truthy info ''special_hours'' of
                  Inl e \<Rightarrow> Inl e
                | Inr sh \<Rightarrow>
                    Inr ((if \<not> wo then [JStr (cat @ '' was not operating at the specified time'')]
                          else [])
                       @ (if sh
                          then [JStr (''Transaction occurred during special hours for '' @ cat)]
                          else [])))))"

definition extract_risk_factors_from_verification :: "dict \<Rightarrow> string \<Rightarrow> json list" where
  "extract_risk_factors_from_verification vr cat =
     (case vendor_risk_factors cat vr of
        Inl e \<Rightarrow> []
      | Inr f1 \<Rightarrow>
     (case pricing_risk_factors cat vr of
        Inl e \<Rightarrow> []
      | Inr f2 \<Rightarrow>
     (case location_risk_factors cat vr of
        Inl e \<Rightarrow> []
      | Inr f3 \<Rightarrow>
     (case hours_risk_factors cat vr of
        Inl e \<Rightarrow> []
      | Inr f4 \<Rightarrow> f1 @ f2 @ f3 @ f4))))"

text \<open>
  What \<open>_category_specific_verification\<close> does with the awaited result: it files a truthy
  \<open>verification_results\<close> under \<open><category>_verification\<close>, extracts risk factors from it
  (KeyError when the key is missing) and returns the result.
\<close>

definition file_category_results :: "string \<Rightarrow> json \<Rightarrow> detector \<Rightarrow> json \<times> detector" where
  "file_category_results cat awaited st =
     (case awaited of
        JObj res \<Rightarrow>
          (let found = get_default res ''verification_results'' JNull;
               st1 = (if truthy found
                      then st\<lparr>verification_results :=
                             dict_set (verification_results st) (cat @ ''_verification'') found\<rparr>
                      else st)
           in case map_of res ''verification_results'' of
                None \<Rightarrow> (JObj [], st1)
              | Some (JObj vr) \<Rightarrow>
                  (awaited, st1\<lparr>risk_factors :=
                     risk_factors st1 @ extract_risk_factors_from_verification vr cat\<rparr>)
              | Some v \<Rightarrow>
                  (awaited, st1))
      | _ \<Rightarrow> (JObj [], st))"

text \<open>
  \<open>_category_specific_verification\<close>. It awaits the value \<open>_make_online_verification_call\<close>
  has returned; every error inside is answered with the empty dictionary.
\<close>

definition category_specific_verification ::
  "bool \<Rightarrow> llm_reply \<Rightarrow> (nat \<Rightarrow> string) \<Rightarrow> detector \<Rightarrow> json \<times> detector" where
  "category_specific_verification groq_configured reply clock st =
     (if \<not> groq_configured then (JObj [], st)
      else (case expense_category st of
              None \<Rightarrow> (JObj [], st)
            | Some cat \<Rightarrow>
                if cat = [] then (JObj [], st)
                else (case get_category_specific_prompt cat of
                        None \<Rightarrow> (JObj [], st)
                      | Some prompt \<Rightarrow>
                          (case await_plain_value
                                  (make_online_verification_call groq_configured reply clock) of
                             Inl e \<Rightarrow> (JObj [], st)
                           | Inr awaited \<Rightarrow> file_category_results cat awaited st))))"

section \<open>The orchestrator\<close>

text \<open>
  The collaborators of one run of \<open>analyze_receipt\<close>. The database client may be missing; a
  query answers with rows or raises. The four analysers run in a thread pool: the model takes
  what \<open>future.result()\<close> gives for each, a returned value or a raised exception, and the
  order in which \<open>as_completed\<close> yields them. \<open>update_seq\<close> is \<open>dict.update\<close> with a
  non-empty list, which stores the pairs it can read and may raise in the middle; \<open>py_str\<close> is
  \<open>str\<close> on decoded JSON; \<open>float_mul\<close> is the binary64 product of the summary's percentages.
\<close>

datatype analyzer = Llm_task | Image_task | Online_task | Pattern_task

datatype future_outcome = Raised py_error | Returned json

record fraud_check_row =
  row_expense_id :: string
  row_overall_risk_score :: real
  row_fraud_probability :: real
  row_risk_factors :: "json list"
  row_verification_results :: dict
  row_image_analysis_results :: dict
  row_online_verification_results :: dict

record database =
  select_expense :: "string \<Rightarrow> py_error + json list"
  insert_fraud_check :: "fraud_check_row \<Rightarrow> py_error + json list"

record env =
  supabase :: "database option"
  groq_configured :: bool
  future_result :: "analyzer \<Rightarrow> future_outcome"
  completion_order :: "analyzer list"
  tool_reply :: llm_reply
  clock :: "nat \<Rightarrow> string"
  update_seq :: "dict \<Rightarrow> json list \<Rightarrow> dict \<times> py_error option"
  py_str :: "json \<Rightarrow> string"
  float_mul :: "real \<Rightarrow> real \<Rightarrow> real"

text \<open>\<open>_get_expense_data\<close>: the first row, or None.\<close>

definition get_expense_data :: "env \<Rightarrow> string \<Rightarrow> json option" where
  "get_expense_data e expense_id =
     (case supabase e of
        None \<Rightarrow> None
      | Some db \<Rightarrow>
          (case select_expense db expense_id of
             Inl err \<Rightarrow> None
           | Inr [] \<Rightarrow> None
           | Inr (row # rows) \<Rightarrow> Some row))"

text \<open>\<open>expense_data.get('category', '').lower()\<close>.\<close>

definition category_of :: "json \<Rightarrow> py_error + string" where
  "category_of expense_data =
     (case expense_data of
        JObj d \<Rightarrow>
          (case get_default d ''category'' (JStr '''') of
             JStr s \<Rightarrow> Inr (map ascii_lower s)
           | _ \<Rightarrow> Inl AttributeError)
      | _ \<Rightarrow> Inl AttributeError)"

text \<open>Statements that may change the state and then raise, run until one raises.\<close>

fun run_effects :: "('s \<Rightarrow> 's \<times> py_error option) list \<Rightarrow> 's \<Rightarrow> 's \<times> py_error option" where
  "run_effects [] s = (s, None)"
| "run_effects (f # fs) s =
     (case f s of (s', Some e) \<Rightarrow> (s', Some e) | (s', None) \<Rightarrow> run_effects fs s')"

text \<open>The elements \<open>list.extend(x)\<close> appends: those of a list, the characters of a string,
  the keys of a dictionary; nothing else can be iterated.\<close>

fun py_iter :: "json \<Rightarrow> py_error + json list" where
  "py_iter (JList xs) = Inr xs"
| "py_iter (JStr s) = Inr (map (\<lambda>c. JStr [c]) s)"
| "py_iter (JObj d) = Inr (map (\<lambda>kv. JStr (fst kv)) d)"
| "py_iter v = Inl TypeError"

text \<open>\<open>d.update(x)\<close> on decoded JSON.\<close>

fun py_update :: "(dict \<Rightarrow> json list \<Rightarrow> dict \<times> py_error option) \<Rightarrow> dict \<Rightarrow> json
    \<Rightarrow> dict \<times> py_error option" where
  "py_update us d (JObj e) = (dict_update d e, None)"
| "py_update us d (JList xs) = (if xs = [] then (d, None) else us d xs)"
| "py_update us d (JStr s) = (d, if s = [] then None else Some ValueError)"
| "py_update us d v = (d, Some TypeError)"

definition extend_risk_factors :: "dict \<Rightarrow> detector \<Rightarrow> detector \<times> py_error option" where
  "extend_risk_factors result st =
     (case map_of result ''risk_factors'' of
        None \<Rightarrow> (st, None)
      | Some v \<Rightarrow>
          (case py_iter v of
             Inl e \<Rightarrow> (st, Some e)
           | Inr xs \<Rightarrow> (st\<lparr>risk_factors := risk_factors st @ xs\<rparr>, None)))"

definition update_verification_results ::
  "(dict \<Rightarrow> json list \<Rightarrow> dict \<times> py_error option) \<Rightarrow> dict \<Rightarrow> detector
     \<Rightarrow> detector \<times> py_error option" where
  "update_verification_results us result st =
     (case map_of result ''verification_results'' of
        None \<Rightarrow> (st, None)
      | Some v \<Rightarrow>
          (st\<lparr>verification_results := fst (py_update us (verification_results st) v)\<rparr>,
           snd (py_update us (verification_results st) v)))"

definition update_image_analysis_results ::
  "(dict \<Rightarrow> json list \<Rightarrow> dict \<times> py_error option) \<Rightarrow> dict \<Rightarrow> detector
     \<Rightarrow> detector \<times> py_error option" where
  "update_image_analysis_results us result st =
     (case map_of result ''image_analysis_results'' of
        None \<Rightarrow> (st, None)
      | Some v \<Rightarrow>
          (st\<lparr>image_analysis_results := fst (py_update us (image_analysis_results st) v)\<rparr>,
           snd (py_update us (image_analysis_results st) v)))"

definition update_online_verification_results ::
  "(dict \<Rightarrow> json list \<Rightarrow> dict \<times> py_error option) \<Rightarrow> dict \<Rightarrow> detector
     \<Rightarrow> detector \<times> py_error option" where
  "update_online_verification_results us result st =
     (case map_of result ''online_verification_results'' of
        None \<Rightarrow> (st, None)
      | Some v \<Rightarrow>
          (st\<lparr>online_verification_results :=
               fst (py_update us (online_verification_results st) v)\<rparr>,
           snd (py_update us (online_verification_results st) v)))"

text \<open>
  The body of the loop over the completed futures: a raised exception is printed and
  nothing else happens; a returned dictionary is merged key by key, and an exception in the
  middle of the merge is printed too, what was merged before it staying merged.
\<close>

definition merge_future :: "env \<Rightarrow> future_outcome \<Rightarrow> detector \<Rightarrow> detector" where
  "merge_future e outcome st =
     (case outcome of
        Raised err \<Rightarrow> st
      | Returned (JObj result) \<Rightarrow>
          fst (run_effects
            [extend_risk_factors result,
             update_verification_results (update_seq e) result,
             update_image_analysis_results (update_seq e) result,
             update_online_verification_results (update_seq e) result] st)
      | Returned v \<Rightarrow> st)"

fun merge_completed :: "env \<Rightarrow> analyzer list \<Rightarrow> detector \<Rightarrow> detector" where
  "merge_completed e [] st = st"
| "merge_completed e (a # as) st = merge_completed e as (merge_future e (future_result e a) st)"

text \<open>
  The merge of the category verification, outside the loop's handler: an exception here
  reaches the handler of \<open>analyze_receipt\<close>.
\<close>

definition merge_category :: "env \<Rightarrow> json \<Rightarrow> detector \<Rightarrow> py_error + detector" where
  "merge_category e category_verification st =
     (case category_verification of
        JObj result \<Rightarrow>
          (case run_effects
                  [extend_risk_factors result,
                   update_verification_results (update_seq e) result] st of
             (st', Some err) \<Rightarrow> Inl err
           | (st', None) \<Rightarrow> Inr st')
      | _ \<Rightarrow> Inr st)"

text \<open>
  \<open>_store_fraud_check_results\<close>: the id of the first returned row, None when the client is
  missing, the insert raises, no row comes back or the row has no id.
\<close>

definition store_fraud_check_results :: "env \<Rightarrow> fraud_check_row \<Rightarrow> json option" where
  "store_fraud_check_results e row =
     (case supabase e of
        None \<Rightarrow> None
      | Some db \<Rightarrow>
          (case insert_fraud_check db row of
             Inl err \<Rightarrow> None
           | Inr [] \<Rightarrow> None
           | Inr (first # rest) \<Rightarrow>
               (case first of JObj d \<Rightarrow> map_of d ''id'' | _ \<Rightarrow> None)))"

record verdict =
  fraud_check_id :: "json option"
  overall_risk_score :: real
  fraud_probability :: real
  verdict_risk_factors :: "json list"
  verdict_verification_results :: dict
  verdict_image_analysis_results :: dict
  verdict_online_verification_results :: dict
  summary :: string

datatype analysis = Empty_result | Verdict verdict

text \<open>
  What a run does: what the caller gets, an exception or a returned value, which analysers
  were submitted to the pool, and which rows were sent to the database for insertion.
\<close>

record run =
  returned :: "py_error + analysis"
  submitted :: "analyzer list"
  inserted :: "fraud_check_row list"

text \<open>
  \<open>analyze_receipt\<close> on a fresh detector, as \<open>check_receipt_fraud\<close> calls it. Every
  exception of the body, the ValueError for a missing expense among them, is caught by the
  handler, which prints it and returns the empty dictionary.
\<close>

definition analyze_receipt :: "env \<Rightarrow> string \<Rightarrow> string \<Rightarrow> run" where
  "analyze_receipt e expense_id file_url =
     (case get_expense_data e expense_id of
        None \<Rightarrow> \<lparr>returned = Inr Empty_result, submitted = [], inserted = []\<rparr>
      | Some expense_data \<Rightarrow>
          if \<not> truthy expense_data
          then \<lparr>returned = Inr Empty_result, submitted = [], inserted = []\<rparr>
          else (case category_of expense_data of
                  Inl err \<Rightarrow> \<lparr>returned = Inr Empty_result, submitted = [], inserted = []\<rparr>
                | Inr cat \<Rightarrow>
                    (let st0 = init_detector\<lparr>expense_category := Some cat\<rparr>;
                         futures = [Llm_task, Image_task, Online_task, Pattern_task];
                         cv = category_specific_verification (groq_configured e) (tool_reply e)
                                (clock e) st0;
                         st2 = merge_completed e (completion_order e) (snd cv)
                     in case merge_category e (fst cv) st2 of
                          Inl err \<Rightarrow>
                            \<lparr>returned = Inr Empty_result, submitted = futures, inserted = []\<rparr>
                        | Inr st3 \<Rightarrow>
                            (let risk = calculate_risk_score st3;
                                 probability = calculate_fraud_probability st3;
                                 text = generate_summary (float_mul e) (py_str e) st3 risk probability;
                                 row = \<lparr>row_expense_id = expense_id,
                                         row_overall_risk_score = risk,
                                         row_fraud_probability = probability,
                                         row_risk_factors = risk_factors st3,
                                         row_verification_results = verification_results st3,
                                         row_image_analysis_results = image_analysis_results st3,
                                         row_online_verification_results =
                                           online_verification_results st3\<rparr>
                             in \<lparr>returned = Inr (Verdict
                                    \<lparr>fraud_check_id = store_fraud_check_results e row,
                                     overall_risk_score = risk,
                                     fraud_probability = probability,
                                     verdict_risk_factors = risk_factors st3,
                                     verdict_verification_results = verification_results st3,
                                     verdict_image_analysis_results = image_analysis_results st3,
                                     verdict_online_verification_results =
                                       online_verification_results st3,
                                     summary = text\<rparr>),
                                 submitted = futures,
                                 inserted = (case supabase e of None \<Rightarrow> [] | Some db \<Rightarrow> [row])\<rparr>))))"

section \<open>Example collaborators\<close>

text \<open>
  The outcomes of the futures with every raised exception replaced by a returned empty
  dictionary.
\<close>

definition silenced :: "(analyzer \<Rightarrow> future_outcome) \<Rightarrow> analyzer \<Rightarrow> future_outcome" where
  "silenced outcomes a =
     (case outcomes a of Raised err \<Rightarrow> Returned (JObj []) | Returned r \<Rightarrow> Returned r)"

text \<open>
  A database that holds one travel expense, \<open>e1\<close>, and answers every insert with a row
  carrying the id \<open>f1\<close>.
\<close>

definition travel_expense :: json where
  "travel_expense =
     JObj [(''id'', JStr ''e1''), (''user_id'', JStr ''u1''), (''amount'', JNum 42.5),
           (''vendor_name'', JStr ''CityCab''), (''category'', JStr ''Travel'')]"

definition example_database :: database where
  "example_database =
     \<lparr>select_expense = (\<lambda>expense_id. Inr (if expense_id = ''e1'' then [travel_expense] else [])),
      insert_fraud_check = (\<lambda>row. Inr [JObj [(''id'', JStr ''f1'')]])\<rparr>"

text \<open>
  The reply of the scenario: one tool call \<open>check_pricing\<close> with a vendor name and a service
  type, no location and no date.
\<close>

definition pricing_call :: tool_call where
  "pricing_call =
     \<lparr>tool_name = ''check_pricing'',
      tool_arguments = Some (JObj [(''vendor_name'', JStr ''CityCab''),
                                   (''service_type'', JStr ''ride'')])\<rparr>"

text \<open>
  A run in which the reasoning service and the database are configured, the image and the
  pattern analyser raise, the other two return what the source makes them return at least,
  and the service asks for the pricing check.
\<close>

definition example_outcomes :: "analyzer \<Rightarrow> future_outcome" where
  "example_outcomes a =
     (case a of
        Llm_task \<Rightarrow> Returned (JObj [(''risk_factors'', JList [JStr ''Amount looks altered'']),
                                       (''verification_results'',
                                        JObj [(''travel_verification'',
                                               JObj [(''price_discrepancy'', JNum 0.6),
                                                     (''route_verification'', JBool False)])])])
      | Image_task \<Rightarrow> Raised ValueError
      | Online_task \<Rightarrow> Returned (JObj [(''online_verification_results'',
                                           JObj [(''vendor_verification'', JObj []),
                                                 (''amount_verification'', JObj []),
                                                 (''date_verification'', JObj [])])])
      | Pattern_task \<Rightarrow> Raised KeyError)"

definition example_env :: env where
  "example_env =
     \<lparr>supabase = Some example_database, groq_configured = True,
      future_result = example_outcomes,
      completion_order = [Online_task, Image_task, Llm_task, Pattern_task],
      tool_reply = Reply (Some [pricing_call]),
      clock = (\<lambda>i. ''2024-03-01T10:00:00''),
      update_seq = (\<lambda>d xs. (d, Some ValueError)),
      py_str = text_of,
      float_mul = (\<lambda>x y. x * y)\<rparr>"

section \<open>Properties of the scores\<close>

lemma average_unit_interval:
  fixes fs :: "real list"
  assumes "\<forall>x \<in> set fs. 0 \<le> x \<and> x \<le> 1" and "fs \<noteq> []"
  shows "0 \<le> sum_list fs / real (length fs) \<and> sum_list fs / real (length fs) \<le> 1"
proof -
  have lo: "0 \<le> sum_list fs" using assms(1) by (simp add: sum_list_nonneg)
  have hi: "sum_list fs \<le> real (length fs)" using assms(1)
    by (induction fs) (auto simp: add_mono)
  have pos: "0 < real (length fs)" using assms(2) by simp
  show ?thesis using lo hi pos by (simp add: divide_le_eq)
qed

lemma price_discrepancy_values_unit:
  "price_discrepancy_values vr = Inr fs \<Longrightarrow> \<forall>x \<in> set fs. 0 \<le> x \<and> x \<le> 1"
  unfolding price_discrepancy_values_def
  by (auto split: option.splits sum.splits if_splits)

lemma failed_check_values_unit:
  "\<forall>x \<in> set (failed_check_values cat vr). 0 \<le> x \<and> x \<le> 1"
proof -
  have "set (failed_check_values cat vr) \<subseteq> {0.8, 0.6, 0.7, 0.5}"
    unfolding failed_check_values_def by auto
  then show ?thesis by fastforce
qed

lemma category_risk_values_unit:
  assumes "category_risk_values cat vr = Inr fs"
  shows "\<forall>x \<in> set fs. 0 \<le> x \<and> x \<le> 1"
proof -
  obtain price where p: "price_discrepancy_values vr = Inr price"
    and f: "fs = price @ failed_check_values cat vr"
    using assms unfolding category_risk_values_def by (auto split: sum.splits)
  show ?thesis
    unfolding f using price_discrepancy_values_unit [OF p] failed_check_values_unit [of cat vr]
    by auto
qed

lemma category_specific_score_bounds:
  "0 \<le> get_category_specific_risk_score st \<and> get_category_specific_risk_score st \<le> 1"
proof -
  have "0 \<le> sum_list fs / real (length fs) \<and> sum_list fs / real (length fs) \<le> 1"
    if "category_risk_values cat vr = Inr fs" "fs \<noteq> []" for cat vr fs
    using average_unit_interval [OF category_risk_values_unit [OF that(1)] that(2)] .
  then show ?thesis
    unfolding get_category_specific_risk_score_def
    by (simp split: option.splits json.splits sum.splits)
qed

lemma calculate_risk_score_expand:
  "calculate_risk_score st =
     0.3 * get_llm_risk_score st + 0.25 * get_image_risk_score st
     + 0.15 * get_verification_risk_score st + 0.1 * get_pattern_risk_score st
     + 0.2 * get_category_specific_risk_score st"
  by (simp add: calculate_risk_score_def weighted_sum_def)

lemma weighted_sum_bounds:
  assumes "\<forall>c. 0 \<le> sc c \<and> sc c \<le> 1"
  shows "0 \<le> weighted_sum sc \<and> weighted_sum sc \<le> 1"
proof -
  have a: "0 \<le> sc Llm_analysis" "sc Llm_analysis \<le> 1" 
    "0 \<le> sc Image_analysis" "sc Image_analysis \<le> 1"
    "0 \<le> sc Online_verification" "sc Online_verification \<le> 1"
    "0 \<le> sc Pattern_analysis" "sc Pattern_analysis \<le> 1"
    "0 \<le> sc Category_specific" "sc Category_specific \<le> 1"
    using assms by auto
  show ?thesis unfolding weighted_sum_def using a by simp
qed

lemma calculate_risk_score_bounds:
  "0 \<le> calculate_risk_score st \<and> calculate_risk_score st \<le> 1"
  using category_specific_score_bounds [of st]
  by (simp add: calculate_risk_score_expand get_llm_risk_score_def get_image_risk_score_def
      get_verification_risk_score_def get_pattern_risk_score_def)

lemma fraud_blend_bounds:
  assumes "0 \<le> r" "r \<le> 1" "0 \<le> v" "v \<le> 1"
  shows "0 \<le> fraud_blend r v \<and> fraud_blend r v \<le> 1"
  using assms by (simp add: fraud_blend_def)

text \<open>
  Claim C3. The overall risk score is
  0.3 * llm_analysis + 0.25 * image_analysis + 0.15 * online_verification
  + 0.1 * pattern_analysis + 0.2 * category_specific over the five category scores. The
  weights sum to 1, so the weighted sum of any five scores in [0,1] lies in [0,1], and so does
  the score the detector computes in every state.
\<close>

theorem calculate_risk_score_weighted:
  "calculate_risk_score st =
       0.3 * get_llm_risk_score st + 0.25 * get_image_risk_score st
       + 0.15 * get_verification_risk_score st + 0.1 * get_pattern_risk_score st
       + 0.2 * get_category_specific_risk_score st
   \<and> sum_list (map weights [Llm_analysis, Image_analysis, Online_verification,
         Pattern_analysis, Category_specific]) = 1
   \<and> ((\<forall>c. 0 \<le> sc c \<and> sc c \<le> 1) \<longrightarrow> 0 \<le> weighted_sum sc \<and> weighted_sum sc \<le> 1)
   \<and> 0 \<le> calculate_risk_score st \<and> calculate_risk_score st \<le> 1"
  using calculate_risk_score_expand [of st] weighted_sum_bounds [of sc]
    calculate_risk_score_bounds [of st]
  by simp

theorem calculate_risk_score_weighted_witness:
  "(\<forall>c::category. (0::real) \<le> 1 \<and> (1::real) \<le> 1)
   \<and> weighted_sum (\<lambda>c. 1) = 1
   \<and> calculate_risk_score
        (init_detector\<lparr>expense_category := Some ''travel'',
           verification_results := [(''travel_verification'',
             JObj [(''price_discrepancy'', JNum 0.6), (''route_verification'', JBool False)])]\<rparr>)
       = 0.18"
  using calculate_risk_score_weighted
    [of "init_detector\<lparr>expense_category := Some ''travel'',
           verification_results := [(''travel_verification'',
             JObj [(''price_discrepancy'', JNum 0.6), (''route_verification'', JBool False)])]\<rparr>"
        "\<lambda>c. 1"]
  by (simp add: weighted_sum_def get_llm_risk_score_def get_image_risk_score_def
      get_verification_risk_score_def get_pattern_risk_score_def
      get_category_specific_risk_score_def category_risk_values_def
      price_discrepancy_values_def failed_check_values_def present_and_falsy_def
      init_detector_def)

text \<open>
  Claim C4. The fraud probability is 0.7 * risk_score + 0.3 * verification_confidence; the
  blend of any two values in [0,1] lies in [0,1] with no clamping, and so does the
  probability the detector computes in every state.
\<close>

theorem calculate_fraud_probability_blend:
  "calculate_fraud_probability st =
       0.7 * calculate_risk_score st + 0.3 * get_verification_confidence st
   \<and> (0 \<le> r \<and> r \<le> 1 \<and> 0 \<le> v \<and> v \<le> 1 \<longrightarrow> 0 \<le> fraud_blend r v \<and> fraud_blend r v \<le> 1)
   \<and> 0 \<le> calculate_fraud_probability st \<and> calculate_fraud_probability st \<le> 1"
proof -
  have eq: "calculate_fraud_probability st =
       0.7 * calculate_risk_score st + 0.3 * get_verification_confidence st"
    by (simp add: calculate_fraud_probability_def fraud_blend_def)
  have v: "get_verification_confidence st = 0" by (simp add: get_verification_confidence_def)
  have b: "0 \<le> calculate_fraud_probability st \<and> calculate_fraud_probability st \<le> 1"
    unfolding calculate_fraud_probability_def
    using fraud_blend_bounds [of "calculate_risk_score st" "get_verification_confidence st"]
      calculate_risk_score_bounds [of st] v by simp
  show ?thesis using eq b fraud_blend_bounds [of r v] by blast
qed

theorem calculate_fraud_probability_blend_witness:
  "(0::real) \<le> 1 \<and> (1::real) \<le> 1 \<and> (0::real) \<le> 0.5 \<and> (0.5::real) \<le> 1
   \<and> fraud_blend 1 0.5 = 0.85 \<and> 0 \<le> fraud_blend 1 0.5 \<and> fraud_blend 1 0.5 \<le> 1
   \<and> calculate_fraud_probability
        (init_detector\<lparr>expense_category := Some ''travel'',
           verification_results := [(''travel_verification'',
             JObj [(''price_discrepancy'', JNum 0.6), (''route_verification'', JBool False)])]\<rparr>)
       = 0.126"
  using calculate_fraud_probability_blend
    [of "init_detector\<lparr>expense_category := Some ''travel'',
           verification_results := [(''travel_verification'',
             JObj [(''price_discrepancy'', JNum 0.6), (''route_verification'', JBool False)])]\<rparr>"
        1 "0.5"]
  by (simp add: fraud_blend_def calculate_risk_score_def weighted_sum_def
      get_llm_risk_score_def get_image_risk_score_def get_verification_confidence_def
      get_verification_risk_score_def get_pattern_risk_score_def
      get_category_specific_risk_score_def category_risk_values_def
      price_discrepancy_values_def failed_check_values_def present_and_falsy_def
      init_detector_def)

text \<open>
  Claim C6. The quality assessment applies its thresholds in priority order, first match
  winning: blur below 100, brightness outside [50,200], contrast below 30, noise above 20,
  compression above 0.5, else good. With blur score 50 the image is reported as too blurry
  whatever the other four metrics are.
\<close>

theorem assess_image_quality_priority:
  "(blur < 100 \<longrightarrow>
      assess_image_quality blur brightness contrast noise compression
        = ''Poor quality - Image is too blurry'')
   \<and> (\<not> blur < 100 \<and> (brightness < 50 \<or> brightness > 200) \<longrightarrow>
      assess_image_quality blur brightness contrast noise compression
        = ''Poor quality - Incorrect brightness'')
   \<and> (\<not> blur < 100 \<and> \<not> (brightness < 50 \<or> brightness > 200) \<and> contrast < 30 \<longrightarrow>
      assess_image_quality blur brightness contrast noise compression
        = ''Poor quality - Low contrast'')
   \<and> (\<not> blur < 100 \<and> \<not> (brightness < 50 \<or> brightness > 200) \<and> \<not> contrast < 30
        \<and> noise > 20 \<longrightarrow>
      assess_image_quality blur brightness contrast noise compression
        = ''Poor quality - High noise level'')
   \<and> (\<not> blur < 100 \<and> \<not> (brightness < 50 \<or> brightness > 200) \<and> \<not> contrast < 30
        \<and> \<not> noise > 20 \<and> compression > 0.5 \<longrightarrow>
      assess_image_quality blur brightness contrast noise compression
        = ''Poor quality - Heavy compression artifacts'')
   \<and> (\<not> blur < 100 \<and> \<not> (brightness < 50 \<or> brightness > 200) \<and> \<not> contrast < 30
        \<and> \<not> noise > 20 \<and> \<not> compression > 0.5 \<longrightarrow>
      assess_image_quality blur brightness contrast noise compression = ''Good quality'')
   \<and> assess_image_quality 50 brightness contrast noise compression
        = ''Poor quality - Image is too blurry''"
  by (simp add: assess_image_quality_def)

theorem assess_image_quality_priority_witness:
  "assess_image_quality 50 0 0 100 1 = ''Poor quality - Image is too blurry''
   \<and> assess_image_quality 150 250 10 100 1 = ''Poor quality - Incorrect brightness''
   \<and> assess_image_quality 150 120 10 100 1 = ''Poor quality - Low contrast''
   \<and> assess_image_quality 150 120 40 100 1 = ''Poor quality - High noise level''
   \<and> assess_image_quality 150 120 40 5 1 = ''Poor quality - Heavy compression artifacts''
   \<and> assess_image_quality 150 120 40 5 0.1 = ''Good quality''"
  using assess_image_quality_priority [of 50 0 0 100 1]
    assess_image_quality_priority [of 150 250 10 100 1]
    assess_image_quality_priority [of 150 120 10 100 1]
    assess_image_quality_priority [of 150 120 40 100 1]
    assess_image_quality_priority [of 150 120 40 5 1]
    assess_image_quality_priority [of 150 120 40 5 "0.1"]
  by simp

section \<open>Properties of date normalisation\<close>


lemma char_of_eq: "(char_of (n::nat) = c) = (of_char c = n mod 256)"
  by (metis char_of_char of_char_of char_of_mod_256)

lemmas date_eval = formats_def strptime_def two_chars_def one_char_def char_between_def
  is_digit_def digit_val_def int_of_text_def field_value_def valid_date_def days_in_month_def
  is_leap_def strftime_ymd_def pad2_def pad4_def digit_char_def char_of_eq

lemma of_char_digit_char: "n < 10 \<Longrightarrow> (of_char (digit_char n) :: nat) = 48 + n"
  by (simp add: digit_char_def)

lemma is_digit_digit_char: "n < 10 \<Longrightarrow> is_digit (digit_char n)"
  by (simp add: is_digit_def char_between_def of_char_digit_char)

lemma digit_val_digit_char: "n < 10 \<Longrightarrow> digit_val (digit_char n) = n"
  by (simp add: digit_val_def of_char_digit_char)

lemma digit_char_not_blank: "n < 10 \<Longrightarrow> digit_char n \<noteq> CHR '' ''"
  using of_char_digit_char [of n] by auto

lemma digit_char_not_slash: "n < 10 \<Longrightarrow> digit_char n \<noteq> CHR ''/''"
  using of_char_digit_char [of n] by auto

lemma decimal4:
  fixes n :: nat
  assumes "n < 10000"
  shows "10 * (10 * (10 * (n div 1000 mod 10) + n div 100 mod 10) + n div 10 mod 10) + n mod 10 = n"
proof -
  have a: "n div 1000 mod 10 = n div 1000" using assms by simp
  have b: "n div 100 = 10 * (n div 1000) + n div 100 mod 10"
    using div_mult2_eq [of n 100 10] by simp
  have c: "n div 10 = 10 * (n div 100) + n div 10 mod 10"
    using div_mult2_eq [of n 10 10] by simp
  have d: "n = 10 * (n div 10) + n mod 10" by simp
  show ?thesis unfolding a by (simp only: b [symmetric] c [symmetric] d [symmetric])
qed

lemma int_of_text_pad4: "n < 10000 \<Longrightarrow> int_of_text (pad4 n) = n"
  using decimal4 [of n]
  by (simp add: int_of_text_def pad4_def digit_char_not_blank digit_val_digit_char)

lemma match_year_pad4:
  assumes "y < 10000"
  shows "match_field Year (pad4 y @ r) = [(y, r)]"
proof -
  have "match_field Year (pad4 y @ r) = [(int_of_text (pad4 y), r)]"
    by (simp add: pad4_def is_digit_digit_char)
  then show ?thesis by (simp only: int_of_text_pad4 [OF assms])
qed

lemma digit_char_eq: "a < 10 \<Longrightarrow> (digit_char a = c) = ((of_char c :: nat) = 48 + a)"
  using of_char_digit_char [of a] by (metis char_of_char digit_char_def)

lemma char_between_digit_char:
  "b < 10 \<Longrightarrow> char_between lo hi (digit_char b) = ((of_char lo :: nat) \<le> 48 + b \<and> 48 + b \<le> (of_char hi :: nat))"
  by (simp add: char_between_def of_char_digit_char)

lemma two_chars_digits:
  assumes "a < 10" "b < 10"
  shows "two_chars p q (digit_char a # digit_char b # r) =
    (if p (digit_char a) \<and> q (digit_char b) then [(10 * a + b, r)] else [])"
  using assms
  by (simp add: two_chars_def int_of_text_def digit_char_not_blank digit_val_digit_char)

lemma pad2_digits:
  assumes "n < 100"
  obtains a b where "pad2 n = [digit_char a, digit_char b]" "a < 10" "b < 10" "n = 10 * a + b"
proof
  show "pad2 n = [digit_char (n div 10), digit_char (n mod 10)]"
    using assms by (simp add: pad2_def)
  show "n div 10 < 10" using assms by simp
  show "n mod 10 < 10" by simp
  show "n = 10 * (n div 10) + n mod 10" by simp
qed

lemma match_month_pad2:
  assumes "1 \<le> m" "m \<le> 12"
  shows "\<exists>cs. match_field Month (pad2 m @ r) = (m, r) # cs"
proof -
  obtain a b where p: "pad2 m = [digit_char a, digit_char b]" and ab: "a < 10" "b < 10"
    and m: "m = 10 * a + b"
    using pad2_digits [of m] assms by auto
  have "a = 0 \<and> 1 \<le> b \<or> a = 1 \<and> b \<le> 2" using assms m ab by arith
  then show ?thesis
  proof
    assume "a = 0 \<and> 1 \<le> b"
    then show ?thesis
      unfolding p using ab m
      by (simp add: two_chars_digits digit_char_eq char_between_digit_char)
  next
    assume "a = 1 \<and> b \<le> 2"
    then show ?thesis
      unfolding p using ab m
      by (simp add: two_chars_digits digit_char_eq char_between_digit_char)
  qed
qed

lemma match_day_pad2:
  assumes "1 \<le> d" "d \<le> 31"
  shows "\<exists>cs. match_field Day (pad2 d @ r) = (d, r) # cs"
proof -
  obtain a b where p: "pad2 d = [digit_char a, digit_char b]" and ab: "a < 10" "b < 10"
    and d: "d = 10 * a + b"
    using pad2_digits [of d] assms by auto
  have "a = 0 \<and> 1 \<le> b \<or> (a = 1 \<or> a = 2) \<or> a = 3 \<and> b \<le> 1" using assms d ab by arith
  then consider "a = 0 \<and> 1 \<le> b" | "a = 1" | "a = 2" | "a = 3 \<and> b \<le> 1" by blast
  then show ?thesis
  proof cases
    case 1
    then show ?thesis
      unfolding p using ab d
      by (simp add: two_chars_digits digit_char_eq char_between_digit_char)
  next
    case 2
    then show ?thesis
      unfolding p using ab d
      by (simp add: two_chars_digits digit_char_eq char_between_digit_char is_digit_digit_char)
  next
    case 3
    then show ?thesis
      unfolding p using ab d
      by (simp add: two_chars_digits digit_char_eq char_between_digit_char is_digit_digit_char)
  next
    case 4
    then show ?thesis
      unfolding p using ab d
      by (simp add: two_chars_digits digit_char_eq char_between_digit_char)
  qed
qed


lemma match_field_rest:
  "(v, r) \<in> set (match_field f s) \<Longrightarrow> set r \<subseteq> set s"
  by (cases f) (auto simp: two_chars_def one_char_def split: list.splits if_splits)

lemma match_lit_absent:
  "c \<notin> set s \<Longrightarrow> match_tokens (Lit c # ts) s = []"
  by (cases s) auto

lemma match_tokens_separator_absent:
  assumes "c \<notin> set s"
  shows "match_tokens (Directive f # Lit c # ts) s = []"
proof -
  have "match_tokens (Lit c # ts) r = []" if "(v, r) \<in> set (match_field f s)" for v r
    using match_field_rest [OF that] assms match_lit_absent by blast
  then have "\<forall>x \<in> set (match_field f s).
      (case x of (v, r) \<Rightarrow> map (\<lambda>(vs, r'). ((f, v) # vs, r')) (match_tokens (Lit c # ts) r)) = []"
    by auto
  then show ?thesis by (simp del: match_tokens.simps(2))
qed


lemma digit_char_not_dash: "n < 10 \<Longrightarrow> digit_char n \<noteq> CHR ''-''"
  using of_char_digit_char [of n] by auto

lemma str_nat_digits: "set (str_nat n) \<subseteq> digit_char ` {..<10}"
proof (induction n rule: str_nat.induct)
  case (1 n)
  show ?case
  proof (cases "n < 10")
    case True
    then show ?thesis by (subst str_nat.simps) simp
  next
    case False
    have "n mod 10 < 10" by simp
    then show ?thesis using 1 False by (subst str_nat.simps) auto
  qed
qed

lemma str_nat_no_dash: "CHR ''-'' \<notin> set (str_nat n)"
proof
  assume "CHR ''-'' \<in> set (str_nat n)"
  then have "CHR ''-'' \<in> digit_char ` {..<10}" by (rule subsetD [OF str_nat_digits])
  then obtain k where "k < 10" "CHR ''-'' = digit_char k" by (auto simp: image_iff)
  then show False using digit_char_not_dash [of k] by simp
qed

lemma str_nat_no_slash: "CHR ''/'' \<notin> set (str_nat n)"
proof
  assume "CHR ''/'' \<in> set (str_nat n)"
  then have "CHR ''/'' \<in> digit_char ` {..<10}" by (rule subsetD [OF str_nat_digits])
  then obtain k where "k < 10" "CHR ''/'' = digit_char k" by (auto simp: image_iff)
  then show False using digit_char_not_slash [of k] by simp
qed

lemma str_nat_short: "n < 1000 \<Longrightarrow> length (str_nat n) < 4"
  by (simp add: str_nat.simps [of n] str_nat.simps [of "n div 10"]
      str_nat.simps [of "n div 10 div 10"])

lemma str_nat_pad4:
  assumes "1000 \<le> n" "n < 10000"
  shows "str_nat n = pad4 n"
proof -
  have a: "n div 10 div 10 = n div 100" "n div 100 div 10 = n div 1000"
    by (simp_all add: div_mult2_eq [symmetric])
  have b: "n div 1000 mod 10 = n div 1000" "n div 1000 < 10" using assms by simp_all
  have c: "\<not> n < 10" "\<not> n div 10 < 10" "\<not> n div 100 < 10" using assms by simp_all
  show ?thesis
    by (simp add: str_nat.simps [of n] str_nat.simps [of "n div 10"]
        str_nat.simps [of "n div 100"] str_nat.simps [of "n div 1000"] a b c pad4_def)
qed

lemma pad2_no_dash: "CHR ''-'' \<notin> set (pad2 n)"
  by (simp add: pad2_def digit_char_not_dash [THEN not_sym])

lemma two_chars_no_dash:
  assumes "(v, r) \<in> set (two_chars p q s)"
    and "\<And>c. p c \<Longrightarrow> c \<noteq> CHR ''-''" and "\<And>c. q c \<Longrightarrow> c \<noteq> CHR ''-''"
  shows "\<exists>a. s = a @ r \<and> CHR ''-'' \<notin> set a"
proof -
  obtain c1 c2 where s: "s = c1 # c2 # r" and pq: "p c1" "q c2"
    using assms(1) by (auto simp: two_chars_def split: list.splits if_splits)
  have "s = [c1, c2] @ r \<and> CHR ''-'' \<notin> set [c1, c2]"
    using s assms(2) [OF pq(1)] assms(3) [OF pq(2)] by simp
  then show ?thesis by (rule exI)
qed

lemma one_char_no_dash:
  assumes "(v, r) \<in> set (one_char p s)" and "\<And>c. p c \<Longrightarrow> c \<noteq> CHR ''-''"
  shows "\<exists>a. s = a @ r \<and> CHR ''-'' \<notin> set a"
proof -
  obtain c1 where s: "s = c1 # r" and p: "p c1"
    using assms(1) by (auto simp: one_char_def split: list.splits if_splits)
  have "s = [c1] @ r \<and> CHR ''-'' \<notin> set [c1]"
    using s assms(2) [OF p] by simp
  then show ?thesis by (rule exI)
qed

lemma is_digit_not_dash: "is_digit c \<Longrightarrow> c \<noteq> CHR ''-''"
  by (auto simp: is_digit_def char_between_def)

lemma match_month_consumes:
  assumes "(v, r) \<in> set (match_field Month s)"
  shows "\<exists>a. s = a @ r \<and> CHR ''-'' \<notin> set a"
proof -
  have "(v, r) \<in> set (two_chars (\<lambda>c. c = CHR ''1'') (char_between CHR ''0'' CHR ''2'') s)
      \<or> (v, r) \<in> set (two_chars (\<lambda>c. c = CHR ''0'') (char_between CHR ''1'' CHR ''9'') s)
      \<or> (v, r) \<in> set (one_char (char_between CHR ''1'' CHR ''9'') s)"
    using assms by simp
  then show ?thesis
  proof (elim disjE)
    assume "(v, r) \<in> set (two_chars (\<lambda>c. c = CHR ''1'') (char_between CHR ''0'' CHR ''2'') s)"
    then show ?thesis by (rule two_chars_no_dash) (auto simp: char_between_def)
  next
    assume "(v, r) \<in> set (two_chars (\<lambda>c. c = CHR ''0'') (char_between CHR ''1'' CHR ''9'') s)"
    then show ?thesis by (rule two_chars_no_dash) (auto simp: char_between_def)
  next
    assume "(v, r) \<in> set (one_char (char_between CHR ''1'' CHR ''9'') s)"
    then show ?thesis by (rule one_char_no_dash) (auto simp: char_between_def)
  qed
qed

lemma match_day_consumes:
  assumes "(v, r) \<in> set (match_field Day s)"
  shows "\<exists>a. s = a @ r \<and> CHR ''-'' \<notin> set a"
proof -
  have "(v, r) \<in> set (two_chars (\<lambda>c. c = CHR ''3'') (char_between CHR ''0'' CHR ''1'') s)
      \<or> (v, r) \<in> set (two_chars (char_between CHR ''1'' CHR ''2'') is_digit s)
      \<or> (v, r) \<in> set (two_chars (\<lambda>c. c = CHR ''0'') (char_between CHR ''1'' CHR ''9'') s)
      \<or> (v, r) \<in> set (one_char (char_between CHR ''1'' CHR ''9'') s)
      \<or> (v, r) \<in> set (two_chars (\<lambda>c. c = CHR '' '') (char_between CHR ''1'' CHR ''9'') s)"
    using assms by simp
  then show ?thesis
  proof (elim disjE)
    assume "(v, r) \<in> set (two_chars (\<lambda>c. c = CHR ''3'') (char_between CHR ''0'' CHR ''1'') s)"
    then show ?thesis by (rule two_chars_no_dash) (auto simp: char_between_def)
  next
    assume "(v, r) \<in> set (two_chars (char_between CHR ''1'' CHR ''2'') is_digit s)"
    then show ?thesis by (rule two_chars_no_dash) (auto simp: char_between_def is_digit_def)
  next
    assume "(v, r) \<in> set (two_chars (\<lambda>c. c = CHR ''0'') (char_between CHR ''1'' CHR ''9'') s)"
    then show ?thesis by (rule two_chars_no_dash) (auto simp: char_between_def)
  next
    assume "(v, r) \<in> set (one_char (char_between CHR ''1'' CHR ''9'') s)"
    then show ?thesis by (rule one_char_no_dash) (auto simp: char_between_def)
  next
    assume "(v, r) \<in> set (two_chars (\<lambda>c. c = CHR '' '') (char_between CHR ''1'' CHR ''9'') s)"
    then show ?thesis by (rule two_chars_no_dash) (auto simp: char_between_def)
  qed
qed

lemma match_year_consumes:
  assumes "(v, r) \<in> set (match_field Year s)"
  shows "\<exists>a. s = a @ r \<and> CHR ''-'' \<notin> set a \<and> length a = 4"
proof -
  obtain c1 c2 c3 c4 where s: "s = c1 # c2 # c3 # c4 # r"
    and d: "is_digit c1" "is_digit c2" "is_digit c3" "is_digit c4"
    using assms by (auto split: list.splits if_splits)
  have "s = [c1, c2, c3, c4] @ r \<and> CHR ''-'' \<notin> set [c1, c2, c3, c4] \<and> length [c1, c2, c3, c4] = 4"
    using s d is_digit_not_dash by auto
  then show ?thesis by blast
qed

lemma match_field_consumes:
  assumes "(v, r) \<in> set (match_field f s)"
  shows "\<exists>a. s = a @ r \<and> CHR ''-'' \<notin> set a \<and> (f = Year \<longrightarrow> length a = 4)"
proof (cases f)
  case Month
  then show ?thesis using match_month_consumes assms by auto
next
  case Day
  then show ?thesis using match_day_consumes assms by auto
next
  case Year
  then show ?thesis using match_year_consumes assms by auto
qed

lemma match_directive_nonempty:
  assumes "match_tokens (Directive f # ts) s \<noteq> []"
  shows "\<exists>v r. (v, r) \<in> set (match_field f s) \<and> match_tokens ts r \<noteq> []"
proof (rule ccontr)
  assume "\<not> ?thesis"
  then have "\<forall>x \<in> set (match_field f s).
      (case x of (v, r) \<Rightarrow> map (\<lambda>(vs, r'). ((f, v) # vs, r')) (match_tokens ts r)) = []"
    by auto
  then have "match_tokens (Directive f # ts) s = []" by simp
  then show False using assms by simp
qed

lemma match_lit_nonempty:
  assumes "match_tokens (Lit c # ts) s \<noteq> []"
  shows "\<exists>r. s = c # r \<and> match_tokens ts r \<noteq> []"
  using assms by (cases s) (auto split: if_splits)

lemma split_at_first:
  "c \<notin> set a \<Longrightarrow> c \<notin> set b \<Longrightarrow> a @ c # r = b @ c # q \<Longrightarrow> a = b \<and> r = q"
proof (induction a arbitrary: b)
  case Nil
  then show ?case by (cases b) auto
next
  case (Cons x a)
  then show ?case by (cases b) auto
qed

lemma prefix_before_separator:
  "c \<notin> set a \<Longrightarrow> a @ r = b @ c # q \<Longrightarrow> length a \<le> length b"
proof (induction a arbitrary: b)
  case Nil
  then show ?case by simp
next
  case (Cons x a)
  then show ?case by (cases b) auto
qed

lemma year_first_fails:
  assumes "length y < 4"
  shows "match_tokens (Directive Year # ts) (y @ CHR ''-'' # r) = []"
proof (rule ccontr)
  assume "match_tokens (Directive Year # ts) (y @ CHR ''-'' # r) \<noteq> []"
  then obtain v q where "(v, q) \<in> set (match_field Year (y @ CHR ''-'' # r))"
    using match_directive_nonempty by blast
  then obtain a where a: "y @ CHR ''-'' # r = a @ q" "CHR ''-'' \<notin> set a" "length a = 4"
    using match_year_consumes by blast
  have "length a \<le> length y"
    using prefix_before_separator [OF a(2) a(1) [symmetric]] .
  then show False using assms a(3) by simp
qed

lemma year_last_fails:
  assumes y: "CHR ''-'' \<notin> set y" and m: "CHR ''-'' \<notin> set m" and dd: "length dd < 4"
  shows "match_tokens
      [Directive f1, Lit CHR ''-'', Directive f2, Lit CHR ''-'', Directive Year]
      (y @ CHR ''-'' # m @ CHR ''-'' # dd) = []"
proof (rule ccontr)
  assume ne: "match_tokens
      [Directive f1, Lit CHR ''-'', Directive f2, Lit CHR ''-'', Directive Year]
      (y @ CHR ''-'' # m @ CHR ''-'' # dd) \<noteq> []"
  obtain v1 r1 where 1: "(v1, r1) \<in> set (match_field f1 (y @ CHR ''-'' # m @ CHR ''-'' # dd))"
    and n1: "match_tokens [Lit CHR ''-'', Directive f2, Lit CHR ''-'', Directive Year] r1 \<noteq> []"
    using match_directive_nonempty [OF ne] by blast
  obtain a1 where a1: "y @ CHR ''-'' # m @ CHR ''-'' # dd = a1 @ r1" "CHR ''-'' \<notin> set a1"
    using match_field_consumes [OF 1] by blast
  obtain r2 where r2: "r1 = CHR ''-'' # r2"
    and n2: "match_tokens [Directive f2, Lit CHR ''-'', Directive Year] r2 \<noteq> []"
    using match_lit_nonempty [OF n1] by blast
  have "y @ CHR ''-'' # m @ CHR ''-'' # dd = a1 @ CHR ''-'' # r2"
    using a1(1) r2 by simp
  then have "y = a1 \<and> m @ CHR ''-'' # dd = r2"
    by (rule split_at_first [OF y a1(2)])
  then have e2: "r2 = m @ CHR ''-'' # dd" by simp
  obtain v3 r3 where 3: "(v3, r3) \<in> set (match_field f2 r2)"
    and n3: "match_tokens [Lit CHR ''-'', Directive Year] r3 \<noteq> []"
    using match_directive_nonempty [OF n2] by blast
  obtain a3 where a3: "r2 = a3 @ r3" "CHR ''-'' \<notin> set a3"
    using match_field_consumes [OF 3] by blast
  obtain r4 where r4: "r3 = CHR ''-'' # r4" and n4: "match_tokens [Directive Year] r4 \<noteq> []"
    using match_lit_nonempty [OF n3] by blast
  have "m @ CHR ''-'' # dd = a3 @ CHR ''-'' # r4"
    using a3(1) r4 e2 by simp
  then have "m = a3 \<and> dd = r4"
    by (rule split_at_first [OF m a3(2)])
  then have e4: "r4 = dd" by simp
  obtain v5 r5 where 5: "(v5, r5) \<in> set (match_field Year r4)"
    using match_directive_nonempty [OF n4] by blast
  obtain a5 where a5: "r4 = a5 @ r5" "length a5 = 4"
    using match_year_consumes [OF 5] by blast
  show False using a5 e4 dd by simp
qed

lemma slash_not_in_strftime:
  "CHR ''/'' \<notin> set (strftime_ymd padded d)"
  by (simp add: strftime_ymd_def pad2_def pad4_def str_nat_no_slash
      digit_char_not_slash [THEN not_sym])

lemma strptime_slash_formats:
  "strptime (strftime_ymd padded d) ''%m/%d/%Y'' = Inl ValueError"
  "strptime (strftime_ymd padded d) ''%d/%m/%Y'' = Inl ValueError"
  using match_tokens_separator_absent [OF slash_not_in_strftime]
  by (simp_all add: strptime_def del: match_tokens.simps)

lemma strptime_unpadded_small:
  assumes "year d < 1000"
  shows "strptime (strftime_ymd False d) ''%Y-%m-%d'' = Inl ValueError"
    and "strptime (strftime_ymd False d) ''%m-%d-%Y'' = Inl ValueError"
    and "strptime (strftime_ymd False d) ''%d-%m-%Y'' = Inl ValueError"
proof -
  have t: "strftime_ymd False d
      = str_nat (year d) @ CHR ''-'' # pad2 (month d) @ CHR ''-'' # pad2 (day d)"
    by (simp add: strftime_ymd_def)
  have l: "length (pad2 (day d)) < 4" by (simp add: pad2_def)
  show "strptime (strftime_ymd False d) ''%Y-%m-%d'' = Inl ValueError"
    unfolding t strptime_def
    using year_first_fails [OF str_nat_short [OF assms]]
    by (simp del: match_tokens.simps)
  show "strptime (strftime_ymd False d) ''%m-%d-%Y'' = Inl ValueError"
    unfolding t strptime_def
    using year_last_fails [OF str_nat_no_dash pad2_no_dash l]
    by (simp del: match_tokens.simps)
  show "strptime (strftime_ymd False d) ''%d-%m-%Y'' = Inl ValueError"
    unfolding t strptime_def
    using year_last_fails [OF str_nat_no_dash pad2_no_dash l]
    by (simp del: match_tokens.simps)
qed

lemma match_iso_format:
  assumes "valid_date d"
  shows "\<exists>ms. match_tokens (tokens_of ''%Y-%m-%d'') (strftime_ymd True d)
    = ([(Year, year d), (Month, month d), (Day, day d)], []) # ms"
proof -
  have y: "year d < 10000" and m: "1 \<le> month d" "month d \<le> 12"
    and dd: "1 \<le> day d" "day d \<le> 31"
    using assms by (auto simp: valid_date_def days_in_month_def split: if_splits)
  obtain ds where ds: "match_field Day (pad2 (day d) @ []) = (day d, []) # ds"
    using match_day_pad2 [OF dd] by blast
  have 1: "\<exists>ms. match_tokens [Directive Day] (pad2 (day d)) = ([(Day, day d)], []) # ms"
    using ds by (simp del: match_field.simps)
  obtain cs where cs: "match_field Month (pad2 (month d) @ CHR ''-'' # pad2 (day d))
      = (month d, CHR ''-'' # pad2 (day d)) # cs"
    using match_month_pad2 [OF m] by blast
  have 2: "\<exists>ms. match_tokens [Directive Month, Lit CHR ''-'', Directive Day]
      (pad2 (month d) @ CHR ''-'' # pad2 (day d)) = ([(Month, month d), (Day, day d)], []) # ms"
  proof -
    obtain ms where ms: "match_tokens [Directive Day] (pad2 (day d)) = ([(Day, day d)], []) # ms"
      using 1 by blast
    have "match_tokens [Lit CHR ''-'', Directive Day] (CHR ''-'' # pad2 (day d))
        = ([(Day, day d)], []) # ms"
      using ms by (simp del: match_tokens.simps(3))
    then show ?thesis
      using cs by (simp del: match_field.simps match_tokens.simps(2))
  qed
  have 3: "match_field Year (pad4 (year d) @ CHR ''-'' # pad2 (month d) @ CHR ''-'' # pad2 (day d))
      = [(year d, CHR ''-'' # pad2 (month d) @ CHR ''-'' # pad2 (day d))]"
    using match_year_pad4 [OF y] by blast
  obtain ms where ms: "match_tokens [Directive Month, Lit CHR ''-'', Directive Day]
      (pad2 (month d) @ CHR ''-'' # pad2 (day d)) = ([(Month, month d), (Day, day d)], []) # ms"
    using 2 by blast
  have 4: "match_tokens [Lit CHR ''-'', Directive Month, Lit CHR ''-'', Directive Day]
      (CHR ''-'' # pad2 (month d) @ CHR ''-'' # pad2 (day d))
      = ([(Month, month d), (Day, day d)], []) # ms"
    using ms by (simp del: match_tokens.simps(3))
  have "\<exists>ms. match_tokens
      [Directive Year, Lit CHR ''-'', Directive Month, Lit CHR ''-'', Directive Day]
      (pad4 (year d) @ CHR ''-'' # pad2 (month d) @ CHR ''-'' # pad2 (day d))
      = ([(Year, year d), (Month, month d), (Day, day d)], []) # ms"
    using 3 4 by (simp del: match_field.simps match_tokens.simps(2))
  then show ?thesis by (simp add: strftime_ymd_def del: match_tokens.simps)
qed

lemma strptime_iso_format:
  assumes "valid_date d"
  shows "strptime (strftime_ymd True d) ''%Y-%m-%d'' = Inr d"
proof -
  obtain ms where ms: "match_tokens (tokens_of ''%Y-%m-%d'') (strftime_ymd True d)
    = ([(Year, year d), (Month, month d), (Day, day d)], []) # ms"
    using match_iso_format [OF assms] by blast
  have r: "\<lparr>year = year d, month = month d, day = day d\<rparr> = d" by simp
  show ?thesis
    unfolding strptime_def ms by (simp add: field_value_def Let_def r assms)
qed

lemma strptime_valid: "strptime s fmt = Inr d \<Longrightarrow> valid_date d"
  by (auto simp: strptime_def Let_def split: list.splits if_splits prod.splits)

lemma try_formats_cases:
  "try_formats padded fmts s = s
   \<or> (\<exists>d. valid_date d \<and> try_formats padded fmts s = strftime_ymd padded d)"
proof (induction fmts)
  case Nil
  then show ?case by simp
next
  case (Cons fmt fmts)
  show ?case
  proof (cases "strptime s fmt")
    case (Inl e)
    then show ?thesis using Cons by simp
  next
    case (Inr d)
    then show ?thesis using strptime_valid [OF Inr] by auto
  qed
qed

lemma try_formats_padded_text:
  assumes "valid_date d"
  shows "try_formats padded formats (strftime_ymd True d) = strftime_ymd padded d"
  by (simp add: formats_def strptime_slash_formats strptime_iso_format [OF assms])

lemma strftime_four_digit_year:
  assumes "1000 \<le> year d" "year d < 10000"
  shows "strftime_ymd padded d = strftime_ymd True d"
  using str_nat_pad4 [OF assms] by (simp add: strftime_ymd_def)

lemma strftime_short_year:
  assumes "year d < 1000"
  shows "strftime_ymd False d \<noteq> strftime_ymd True d"
proof
  assume "strftime_ymd False d = strftime_ymd True d"
  then have "length (strftime_ymd False d) = length (strftime_ymd True d)" by simp
  then show False
    using str_nat_short [OF assms] by (simp add: strftime_ymd_def pad2_def pad4_def)
qed

lemma try_formats_normalized:
  assumes "valid_date d"
  shows "try_formats padded formats (strftime_ymd padded d) = strftime_ymd padded d"
proof (cases "padded \<or> 1000 \<le> year d")
  case True
  have "year d < 10000" using assms by (simp add: valid_date_def)
  then have "strftime_ymd padded d = strftime_ymd True d"
    using True strftime_four_digit_year [of d padded] by (cases padded) auto
  then show ?thesis using try_formats_padded_text [OF assms, of padded] by simp
next
  case False
  then have p: "padded = False" and y: "year d < 1000" by auto
  show ?thesis
    unfolding p
    by (simp add: formats_def strptime_slash_formats strptime_unpadded_small [OF y])
qed

lemma try_formats_idem:
  "try_formats padded formats (try_formats padded formats s) = try_formats padded formats s"
  using try_formats_cases [of padded formats s] try_formats_normalized [of _ padded] by auto

text \<open>
  Claim C8, as stated, fails where \<open>strftime\<close> does not pad the year: the zero-padded text
  \<open>0999-01-01\<close> is parsed by \<open>%Y-%m-%d\<close> and printed back as \<open>999-01-01\<close>.
\<close>

theorem normalize_date_counterexample:
  "valid_date \<lparr>year = 999, month = 1, day = 1\<rparr>
   \<and> strftime_ymd True \<lparr>year = 999, month = 1, day = 1\<rparr> = ''0999-01-01''
   \<and> strptime ''0999-01-01'' ''%Y-%m-%d'' = Inr \<lparr>year = 999, month = 1, day = 1\<rparr>
   \<and> normalize_date False (JStr ''0999-01-01'') = JStr ''999-01-01''
   \<and> normalize_date False (JStr ''0999-01-01'') \<noteq> JStr ''0999-01-01''"
  by (simp add: date_eval str_nat.simps)

text \<open>
  Claim C8, amended. Normalising twice gives what normalising once gives, for every argument
  and whether or not \<open>strftime\<close> pads the year. For a calendar date, the zero-padded
  YYYY-MM-DD text is normalised to what \<open>strftime\<close> prints for the date, that print is
  returned as it is, and the zero-padded text is returned as it is exactly when
  \<open>strftime\<close> pads the year or the year is at least 1000.
\<close>

theorem normalize_date_idempotent:
  "normalize_date padded (normalize_date padded v) = normalize_date padded v
   \<and> (valid_date d \<longrightarrow>
        normalize_date padded (JStr (strftime_ymd True d)) = JStr (strftime_ymd padded d)
        \<and> normalize_date padded (JStr (strftime_ymd padded d)) = JStr (strftime_ymd padded d)
        \<and> ((normalize_date padded (JStr (strftime_ymd True d)) = JStr (strftime_ymd True d))
             = (padded \<or> 1000 \<le> year d)))"
proof -
  have 1: "normalize_date padded (normalize_date padded v) = normalize_date padded v"
    by (cases v) (simp_all add: try_formats_idem)
  have 2: "(strftime_ymd padded d = strftime_ymd True d) = (padded \<or> 1000 \<le> year d)"
    if "valid_date d"
  proof (cases "padded \<or> 1000 \<le> year d")
    case True
    have "year d < 10000" using that by (simp add: valid_date_def)
    then show ?thesis using True strftime_four_digit_year [of d padded] by (cases padded) auto
  next
    case False
    then show ?thesis using strftime_short_year [of d] by auto
  qed
  show ?thesis
    using 1 2 try_formats_padded_text [of d padded] try_formats_normalized [of d padded]
    by simp
qed

theorem normalize_date_idempotent_witness:
  "valid_date \<lparr>year = 2024, month = 3, day = 1\<rparr>
   \<and> strftime_ymd True \<lparr>year = 2024, month = 3, day = 1\<rparr> = ''2024-03-01''
   \<and> strftime_ymd False \<lparr>year = 2024, month = 3, day = 1\<rparr> = ''2024-03-01''
   \<and> normalize_date False (JStr ''2024-03-01'') = JStr ''2024-03-01''
   \<and> normalize_date False (JStr ''03/01/2024'') = JStr ''2024-03-01''
   \<and> normalize_date False (normalize_date False (JStr ''03/01/2024''))
       = normalize_date False (JStr ''03/01/2024'')"
proof -
  have v: "valid_date \<lparr>year = 2024, month = 3, day = 1\<rparr>"
    by (simp add: valid_date_def days_in_month_def)
  have s: "strftime_ymd True \<lparr>year = 2024, month = 3, day = 1\<rparr> = ''2024-03-01''"
    by (simp add: date_eval)
  have u: "strftime_ymd False \<lparr>year = 2024, month = 3, day = 1\<rparr> = ''2024-03-01''"
    by (simp add: date_eval str_nat.simps)
  have n: "normalize_date False (JStr ''03/01/2024'') = JStr ''2024-03-01''"
    by (simp add: date_eval str_nat.simps)
  have a: "normalize_date False (JStr ''2024-03-01'') = JStr ''2024-03-01''"
    using normalize_date_idempotent
      [of False "JStr ''03/01/2024''" "\<lparr>year = 2024, month = 3, day = 1\<rparr>"] v
    unfolding s u by blast
  have b: "normalize_date False (normalize_date False (JStr ''03/01/2024''))
      = normalize_date False (JStr ''03/01/2024'')"
    using normalize_date_idempotent
      [of False "JStr ''03/01/2024''" "\<lparr>year = 2024, month = 3, day = 1\<rparr>"]
    by blast
  show ?thesis using v s u a n b by blast
qed

section \<open>Properties of the OCR cross-validation\<close>

text \<open>
  The examples below pass \<open>Map.empty\<close> for the string parser of \<open>float\<close>: none of them
  converts a string.
\<close>


lemma run_steps_append:
  "run_steps (fs @ gs) s =
     (case run_steps fs s of (s', Some e) \<Rightarrow> (s', Some e) | (s', None) \<Rightarrow> run_steps gs s')"
  by (induction fs arbitrary: s) (auto split: sum.splits)

lemma run_steps_invariant:
  assumes "\<And>f s s'. f \<in> set fs \<Longrightarrow> P s \<Longrightarrow> f s = Inr s' \<Longrightarrow> P s'" and "P s"
  shows "P (fst (run_steps fs s))"
  using assms
proof (induction fs arbitrary: s)
  case Nil
  then show ?case by simp
next
  case (Cons f fs)
  show ?case
  proof (cases "f s")
    case (Inl e)
    then show ?thesis using Cons.prems(2) by simp
  next
    case (Inr s')
    have "P s'" using Cons.prems(1) [of f s s'] Cons.prems(2) Inr by simp
    moreover have "\<And>g s s'. g \<in> set fs \<Longrightarrow> P s \<Longrightarrow> g s = Inr s' \<Longrightarrow> P s'"
      using Cons.prems(1) by (meson list.set_intros(2))
    ultimately have "P (fst (run_steps fs s'))"
      using Cons.IH [of s'] by blast
    then show ?thesis using Inr by simp
  qed
qed

lemma run_steps_length:
  assumes "\<And>f s s'. f \<in> set fs \<Longrightarrow> f s = Inr s' \<Longrightarrow> length s' \<le> Suc (length s)"
  shows "length (fst (run_steps fs s)) \<le> length s + length fs"
  using assms
proof (induction fs arbitrary: s)
  case Nil
  then show ?case by simp
next
  case (Cons f fs)
  show ?case
  proof (cases "f s")
    case (Inl e)
    then show ?thesis by simp
  next
    case (Inr s')
    have 1: "length s' \<le> Suc (length s)" using Cons.prems [of f s s'] Inr by simp
    have "\<And>g s s'. g \<in> set fs \<Longrightarrow> g s = Inr s' \<Longrightarrow> length s' \<le> Suc (length s)"
      using Cons.prems by (meson list.set_intros(2))
    then have "length (fst (run_steps fs s')) \<le> length s' + length fs"
      using Cons.IH [of s'] by blast
    then show ?thesis using Inr 1 by simp
  qed
qed

lemma comparisons_keep_score:
  assumes "f \<in> set (comparisons padded fl td ld)" "overall_match_score v = 0" "f v = Inr v'"
  shows "overall_match_score v' = 0"
  using assms
  by (auto simp: comparisons_def compare_dates_def compare_amounts_def compare_vendors_def
      compare_taxes_def split: sum.splits option.splits)

lemma true_flags_le: "true_flags v \<le> 4"
  by (simp add: true_flags_def of_bool_def)

lemma sum_values_flags: "overall_match_score v = 0 \<Longrightarrow> sum_values v = real (true_flags v)"
  by (simp add: sum_values_def true_flags_def)

lemma validate_cases:
  obtains (complete) v where "overall_match_score v = 0"
      "validate_ocr_results padded fl td ld = v\<lparr>overall_match_score := real (true_flags v) / 5\<rparr>"
      "validation_error padded fl td ld = None"
    | (raised) e where "overall_match_score (validate_ocr_results padded fl td ld) = 0"
      "validation_error padded fl td ld = Some e"
proof -
  obtain v err where r: "run_steps (comparisons padded fl td ld) init_validation = (v, err)"
    by (cases "run_steps (comparisons padded fl td ld) init_validation")
  have "overall_match_score (fst (run_steps (comparisons padded fl td ld) init_validation)) = 0"
    by (rule run_steps_invariant [where P = "\<lambda>v. overall_match_score v = 0"])
      (auto intro: comparisons_keep_score simp: init_validation_def)
  then have z: "overall_match_score v = 0" using r by simp
  show ?thesis
  proof (cases err)
    case None
    have "validate_ocr_results padded fl td ld = v\<lparr>overall_match_score := real (true_flags v) / 5\<rparr>"
      using r None z
      by (simp add: validate_ocr_results_def run_steps_append set_overall_match_score_def
          sum_values_flags len_validation_def)
    moreover have "validation_error padded fl td ld = None"
      using r None
      by (simp add: validation_error_def run_steps_append set_overall_match_score_def)
    ultimately show ?thesis using complete z by blast
  next
    case (Some e)
    have "validate_ocr_results padded fl td ld = v"
      using r Some by (simp add: validate_ocr_results_def run_steps_append)
    moreover have "validation_error padded fl td ld = Some e"
      using r Some by (simp add: validation_error_def run_steps_append)
    ultimately show ?thesis using raised z by blast
  qed
qed

lemma true_flags_score_update [simp]:
  "true_flags (v\<lparr>overall_match_score := x\<rparr>) = true_flags v"
  by (simp add: true_flags_def)


lemma discrepancy_steps_grow:
  assumes "f \<in> set [date_discrepancy padded td ld, amount_discrepancy fl ''total_amount'' td ld,
      vendor_discrepancy td ld, amount_discrepancy fl ''tax_amount'' td ld]"
    and "f ds = Inr ds'"
  shows "length ds' \<le> Suc (length ds)"
  using assms
  by (auto simp: date_discrepancy_def amount_discrepancy_def vendor_discrepancy_def
      split: sum.splits option.splits if_splits)

lemma find_discrepancies_at_most_four: "length (find_discrepancies padded fl td ld) \<le> 4"
proof -
  have "length (fst (run_steps [date_discrepancy padded td ld, amount_discrepancy fl ''total_amount'' td ld,
      vendor_discrepancy td ld, amount_discrepancy fl ''tax_amount'' td ld] []))
      \<le> length ([] :: discrepancy list) + length [date_discrepancy padded td ld,
        amount_discrepancy fl ''total_amount'' td ld, vendor_discrepancy td ld,
        amount_discrepancy fl ''tax_amount'' td ld]"
    by (rule run_steps_length) (rule discrepancy_steps_grow)
  then show ?thesis by (simp add: find_discrepancies_def del: run_steps.simps)
qed

lemma apply_discount_zero: "apply_discount c 0 = c"
  by (simp add: apply_discount_def)

lemma combine_confidence:
  assumes "py_num (get_default llm_results ''confidence_score'' (JNum 0)) = Some lc"
  shows "confidence_score (combine_ocr_results padded fl tesseract llm_results)
    = apply_discount
        (if lc > tesseract_confidence_of tesseract then lc else tesseract_confidence_of tesseract)
        (length (find_discrepancies padded fl (tesseract_data_of tesseract)
           (get_default llm_results ''structured_data'' (JObj []))))"
  using assms
  by (simp add: combine_ocr_results_def Let_def init_combined_def apply_discount_zero)

lemma apply_discount_nonpositive:
  assumes "10 \<le> n" "0 < c"
  shows "apply_discount c n \<le> 0"
proof -
  have "real n \<ge> 10" using assms(1) by simp
  then have "1 - real n * 0.1 \<le> 0" by simp
  then show ?thesis
    unfolding apply_discount_def using assms(2) by (simp add: mult_le_0_iff)
qed

text \<open>
  Claim C5. When the comparison of the two confidences selects a path with confidence c and
  k field discrepancies are found, the combined confidence is c * (1 - 0.1 * k), with no
  floor at 0: the discount of a positive confidence by ten or more discrepancies is zero or
  negative. The four compared fields yield at most four discrepancies.
\<close>

theorem combine_ocr_results_discount:
  "(py_num (get_default llm_results ''confidence_score'' (JNum 0)) = Some lc \<longrightarrow>
      confidence_score (combine_ocr_results padded fl tesseract llm_results)
        = apply_discount
            (if lc > tesseract_confidence_of tesseract then lc
             else tesseract_confidence_of tesseract)
            (length (find_discrepancies padded fl (tesseract_data_of tesseract)
               (get_default llm_results ''structured_data'' (JObj [])))))
   \<and> apply_discount c n = c * (1 - 0.1 * real n)
   \<and> (10 \<le> n \<and> 0 < c \<longrightarrow> apply_discount c n \<le> 0)
   \<and> length (find_discrepancies padded fl td ld) \<le> 4"
  using combine_confidence [of llm_results lc padded fl tesseract] apply_discount_nonpositive [of n c]
    find_discrepancies_at_most_four [of padded fl td ld]
  by (simp add: apply_discount_def)

theorem combine_ocr_results_discount_witness:
  "py_num (get_default [(''structured_data'', JObj [(''total_amount'', JNum 90)]),
       (''confidence_score'', JNum 0.9)] ''confidence_score'' (JNum 0)) = Some 0.9
   \<and> length (find_discrepancies False Map.empty [(''total_amount'', JNum 100)]
        (JObj [(''total_amount'', JNum 90)])) = 1
   \<and> confidence_score (combine_ocr_results False Map.empty
        (Some \<lparr>best_text = ''TOTAL $100.00'', best_confidence = 0.5,
                tesseract_structured_data = [(''total_amount'', JNum 100)]\<rparr>)
        [(''structured_data'', JObj [(''total_amount'', JNum 90)]),
         (''confidence_score'', JNum 0.9)]) = 0.81
   \<and> (10::nat) \<le> 10 \<and> (0::real) < 0.9 \<and> apply_discount 0.9 10 \<le> 0"
proof -
  have k: "find_discrepancies False Map.empty [(''total_amount'', JNum 100)]
        (JObj [(''total_amount'', JNum 90)])
      = [\<lparr>field_name = ''total_amount'', tesseract_value = JNum 100, llm_value = JNum 90\<rparr>]"
    by (simp add: find_discrepancies_def date_discrepancy_def amount_discrepancy_def
        vendor_discrepancy_def field_pair_def amount_gap_def)
  show ?thesis
    using combine_ocr_results_discount [of
        "[(''structured_data'', JObj [(''total_amount'', JNum 90)]), (''confidence_score'', JNum 0.9)]"
        "0.9" False Map.empty
        "Some \<lparr>best_text = ''TOTAL $100.00'', best_confidence = 0.5,
                tesseract_structured_data = [(''total_amount'', JNum 100)]\<rparr>"
        "0.9" 10 "[(''total_amount'', JNum 100)]" "JObj [(''total_amount'', JNum 90)]"]
    by (simp add: k get_default_def tesseract_confidence_of_def tesseract_data_of_def
        apply_discount_def)
qed

text \<open>
  Claim C10, as stated, fails on a pair of mappings where a later comparison raises: the
  dates match, \<open>float\<close> of the service's amount (a JSON object) raises TypeError, and the
  handler returns the flags set so far with the score still 0.
\<close>

theorem validate_ocr_results_score_counterexample:
  "date_match (validate_ocr_results False Map.empty
       [(''date'', JStr ''03/01/2024''), (''total_amount'', JNum 100)]
       (JObj [(''date'', JStr ''2024-03-01''), (''total_amount'', JObj [(''value'', JNum 100)])]))
   \<and> overall_match_score (validate_ocr_results False Map.empty
       [(''date'', JStr ''03/01/2024''), (''total_amount'', JNum 100)]
       (JObj [(''date'', JStr ''2024-03-01''), (''total_amount'', JObj [(''value'', JNum 100)])]))
     \<noteq> real (true_flags (validate_ocr_results False Map.empty
       [(''date'', JStr ''03/01/2024''), (''total_amount'', JNum 100)]
       (JObj [(''date'', JStr ''2024-03-01''), (''total_amount'', JObj [(''value'', JNum 100)])]))) / 5"
proof -
  have d1: "normalize_date False (JStr ''03/01/2024'') = JStr ''2024-03-01''"
    by (simp add: date_eval str_nat.simps)
  have d2: "normalize_date False (JStr ''2024-03-01'') = JStr ''2024-03-01''"
    by (simp add: date_eval str_nat.simps)
  have "validate_ocr_results False Map.empty
       [(''date'', JStr ''03/01/2024''), (''total_amount'', JNum 100)]
       (JObj [(''date'', JStr ''2024-03-01''), (''total_amount'', JObj [(''value'', JNum 100)])])
     = init_validation\<lparr>date_match := True\<rparr>"
    by (simp add: validate_ocr_results_def comparisons_def compare_dates_def compare_amounts_def
        field_pair_def amount_gap_def d1 d2 del: normalize_date.simps)
  then show ?thesis by (simp add: true_flags_def init_validation_def)
qed

text \<open>
  Claim C10, amended. When no comparison raises, the overall match score is the number of true
  match flags divided by 5, the length of the validation mapping, which counts the score's own
  key; when a comparison raises, the score stays 0. In every case the score is at most 0.8
  and never 1.
\<close>

theorem validate_ocr_results_score:
  "(validation_error padded fl td ld = None \<longrightarrow>
      overall_match_score (validate_ocr_results padded fl td ld)
        = real (true_flags (validate_ocr_results padded fl td ld)) / 5)
   \<and> (validation_error padded fl td ld \<noteq> None \<longrightarrow>
      overall_match_score (validate_ocr_results padded fl td ld) = 0)
   \<and> overall_match_score (validate_ocr_results padded fl td ld) \<le> 0.8
   \<and> overall_match_score (validate_ocr_results padded fl td ld) \<noteq> 1"
proof (cases rule: validate_cases [of padded fl td ld])
  case (complete v)
  have "real (true_flags v) \<le> 4" using true_flags_le [of v] by linarith
  then show ?thesis using complete by simp
next
  case (raised e)
  then show ?thesis by simp
qed

theorem validate_ocr_results_score_witness:
  "validation_error False Map.empty
       [(''total_amount'', JNum 100), (''vendor_name'', JStr ''Acme Diner''), (''tax_amount'', JNum 8)]
       (JObj [(''total_amount'', JNum 100), (''vendor_name'', JStr ''ACME diner''),
              (''tax_amount'', JNum 8)]) = None
   \<and> overall_match_score (validate_ocr_results False Map.empty
       [(''total_amount'', JNum 100), (''vendor_name'', JStr ''Acme Diner''), (''tax_amount'', JNum 8)]
       (JObj [(''total_amount'', JNum 100), (''vendor_name'', JStr ''ACME diner''),
              (''tax_amount'', JNum 8)])) = 3 / 5
   \<and> validation_error False Map.empty [(''total_amount'', JNum 100)]
       (JObj [(''total_amount'', JObj [(''value'', JNum 100)])]) \<noteq> None
   \<and> overall_match_score (validate_ocr_results False Map.empty [(''total_amount'', JNum 100)]
       (JObj [(''total_amount'', JObj [(''value'', JNum 100)])])) = 0"
proof -
  have n1: "normalize_text (JStr ''Acme Diner'') = JStr ''acmediner''"
    by (simp add: ascii_lower_def char_between_def char_of_eq)
  have n2: "normalize_text (JStr ''ACME diner'') = JStr ''acmediner''"
    by (simp add: ascii_lower_def char_between_def char_of_eq)
  have v: "validate_ocr_results False Map.empty
       [(''total_amount'', JNum 100), (''vendor_name'', JStr ''Acme Diner''), (''tax_amount'', JNum 8)]
       (JObj [(''total_amount'', JNum 100), (''vendor_name'', JStr ''ACME diner''),
              (''tax_amount'', JNum 8)])
     = \<lparr>date_match = False, amount_match = True, vendor_match = True, tax_match = True,
         overall_match_score = 3 / 5\<rparr>"
    by (simp add: validate_ocr_results_def comparisons_def compare_dates_def compare_amounts_def
        compare_vendors_def compare_taxes_def set_overall_match_score_def sum_values_def
        len_validation_def field_pair_def amount_gap_def init_validation_def n1 n2
        del: normalize_text.simps)
  have e1: "validation_error False Map.empty
       [(''total_amount'', JNum 100), (''vendor_name'', JStr ''Acme Diner''), (''tax_amount'', JNum 8)]
       (JObj [(''total_amount'', JNum 100), (''vendor_name'', JStr ''ACME diner''),
              (''tax_amount'', JNum 8)]) = None"
    by (simp add: validation_error_def comparisons_def compare_dates_def compare_amounts_def
        compare_vendors_def compare_taxes_def set_overall_match_score_def
        field_pair_def amount_gap_def n1 n2 del: normalize_text.simps)
  have e2: "validation_error False Map.empty [(''total_amount'', JNum 100)]
       (JObj [(''total_amount'', JObj [(''value'', JNum 100)])]) = Some TypeError"
    by (simp add: validation_error_def comparisons_def compare_dates_def compare_amounts_def
        field_pair_def amount_gap_def)
  have z: "overall_match_score (validate_ocr_results False Map.empty [(''total_amount'', JNum 100)]
       (JObj [(''total_amount'', JObj [(''value'', JNum 100)])])) = 0"
    using validate_ocr_results_score [of False Map.empty "[(''total_amount'', JNum 100)]"
        "JObj [(''total_amount'', JObj [(''value'', JNum 100)])]"] e2
    by simp
  have c: "overall_match_score (validate_ocr_results False Map.empty
       [(''total_amount'', JNum 100), (''vendor_name'', JStr ''Acme Diner''), (''tax_amount'', JNum 8)]
       (JObj [(''total_amount'', JNum 100), (''vendor_name'', JStr ''ACME diner''),
              (''tax_amount'', JNum 8)])) = 3 / 5"
    using validate_ocr_results_score [of False Map.empty
        "[(''total_amount'', JNum 100), (''vendor_name'', JStr ''Acme Diner''), (''tax_amount'', JNum 8)]"
        "JObj [(''total_amount'', JNum 100), (''vendor_name'', JStr ''ACME diner''),
              (''tax_amount'', JNum 8)]"] e1
    by (simp add: v true_flags_def)
  show ?thesis using e1 e2 z c by simp
qed

section \<open>Properties of the summary\<close>













section \<open>Properties of the orchestrator\<close>


lemma category_specific_verification_empty:
  "category_specific_verification g reply clk st = (JObj [], st)"
  by (simp add: category_specific_verification_def await_plain_value_def split: option.splits)

lemma merge_category_empty: "merge_category e (JObj []) st = Inr st"
  by (simp add: merge_category_def extend_risk_factors_def update_verification_results_def)

lemma merge_future_raised: "merge_future e (Raised err) st = st"
  by (simp add: merge_future_def)

lemma merge_future_empty: "merge_future e (Returned (JObj [])) st = st"
  by (simp add: merge_future_def extend_risk_factors_def update_verification_results_def
      update_image_analysis_results_def update_online_verification_results_def)

lemma merge_future_env:
  "update_seq e' = update_seq e \<Longrightarrow> merge_future e' outcome st = merge_future e outcome st"
  by (simp add: merge_future_def split: future_outcome.splits json.splits)

lemma merge_future_silenced:
  "merge_future e (silenced outcomes a) st = merge_future e (outcomes a) st"
  by (cases "outcomes a") (simp_all add: silenced_def merge_future_raised merge_future_empty)

lemma merge_completed_silenced:
  "merge_completed (e\<lparr>future_result := silenced (future_result e)\<rparr>) order st
     = merge_completed e order st"
proof (induction order arbitrary: st)
  case Nil
  then show ?case by simp
next
  case (Cons a order)
  have "merge_future (e\<lparr>future_result := silenced (future_result e)\<rparr>)
          (silenced (future_result e) a) st = merge_future e (future_result e a) st"
    using merge_future_env [of "e\<lparr>future_result := silenced (future_result e)\<rparr>" e]
      merge_future_silenced [of e "future_result e" a st] by simp
  then show ?case using Cons.IH by simp
qed

lemma merge_completed_all_raised:
  assumes "\<forall>a. \<exists>err. future_result e a = Raised err"
  shows "merge_completed e order st = st"
proof (induction order arbitrary: st)
  case Nil
  then show ?case by simp
next
  case (Cons a order)
  obtain err where "future_result e a = Raised err" using assms by blast
  then show ?case using Cons.IH by (simp add: merge_future_raised)
qed


lemma scores_only_category:
  "scores st = (\<lambda>c. if c = Category_specific then get_category_specific_risk_score st else 0)"
proof
  fix c
  show "scores st c = (if c = Category_specific then get_category_specific_risk_score st else 0)"
    by (cases c) (simp_all add: get_llm_risk_score_def get_image_risk_score_def
        get_verification_risk_score_def get_pattern_risk_score_def)
qed

lemma analyze_receipt_found:
  assumes "get_expense_data e expense_id = Some expense_data" "truthy expense_data"
    "category_of expense_data = Inr cat"
  shows "\<exists>v st. returned (analyze_receipt e expense_id file_url) = Inr (Verdict v)
    \<and> st = merge_completed e (completion_order e) (init_detector\<lparr>expense_category := Some cat\<rparr>)
    \<and> overall_risk_score v = calculate_risk_score st
    \<and> fraud_probability v = calculate_fraud_probability st
    \<and> verdict_risk_factors v = risk_factors st
    \<and> verdict_verification_results v = verification_results st
    \<and> verdict_image_analysis_results v = image_analysis_results st
    \<and> verdict_online_verification_results v = online_verification_results st
    \<and> submitted (analyze_receipt e expense_id file_url)
        = [Llm_task, Image_task, Online_task, Pattern_task]"
  using assms
  by (simp add: analyze_receipt_def Let_def category_specific_verification_empty
      merge_category_empty)

lemma get_expense_data_silenced:
  "get_expense_data (e\<lparr>future_result := f\<rparr>) expense_id = get_expense_data e expense_id"
  by (simp add: get_expense_data_def)

lemma store_silenced:
  "store_fraud_check_results (e\<lparr>future_result := f\<rparr>) row = store_fraud_check_results e row"
  by (simp add: store_fraud_check_results_def)

lemma analyze_receipt_silenced:
  "analyze_receipt (e\<lparr>future_result := silenced (future_result e)\<rparr>) expense_id file_url
     = analyze_receipt e expense_id file_url"
proof (cases "get_expense_data e expense_id")
  case None
  then show ?thesis by (simp add: analyze_receipt_def get_expense_data_silenced)
next
  case (Some expense_data)
  show ?thesis
  proof (cases "truthy expense_data")
    case False
    then show ?thesis using Some by (simp add: analyze_receipt_def get_expense_data_silenced)
  next
    case True
    show ?thesis
    proof (cases "category_of expense_data")
      case (Inl err)
      then show ?thesis
        using Some True by (simp add: analyze_receipt_def get_expense_data_silenced)
    next
      case (Inr cat)
      then show ?thesis
        using Some True
        by (simp add: analyze_receipt_def Let_def get_expense_data_silenced store_silenced
            category_specific_verification_empty merge_category_empty merge_completed_silenced)
    qed
  qed
qed


lemma category_score_no_results:
  "verification_results st = [] \<Longrightarrow> get_category_specific_risk_score st = 0"
  by (simp add: get_category_specific_risk_score_def split: option.splits)

lemma example_lookup:
  "get_expense_data example_env ''e1'' = Some travel_expense"
  "get_expense_data example_env ''e2'' = None"
  "truthy travel_expense"
  "category_of travel_expense = Inr ''travel''"
  by (simp_all add: get_expense_data_def example_env_def example_database_def travel_expense_def
      category_of_def get_default_def ascii_lower_def char_between_def char_of_eq)

text \<open>
  Claim C1, as stated, fails: for an expense id the store does not hold, the call does not
  end in an exception; the caller gets the empty dictionary.
\<close>

theorem analyze_receipt_not_found_counterexample:
  "get_expense_data example_env ''e2'' = None
   \<and> \<not> isl (returned (analyze_receipt example_env ''e2'' ''receipt.png''))
   \<and> returned (analyze_receipt example_env ''e2'' ''receipt.png'') = Inr Empty_result"
  by (simp add: analyze_receipt_def example_lookup)

text \<open>
  Claim C1, amended. For every expense id that does not resolve to an expense record,
  \<open>analyze_receipt\<close> returns the empty dictionary: the error it raises for the missing
  expense is caught by its own handler and no exception reaches the caller. No analyser is
  dispatched, nothing is persisted and no verdict-shaped result is produced.
\<close>

theorem analyze_receipt_not_found:
  "(get_expense_data e expense_id = None
      \<or> (\<exists>row. get_expense_data e expense_id = Some row \<and> \<not> truthy row)) \<longrightarrow>
     returned (analyze_receipt e expense_id file_url) = Inr Empty_result
     \<and> submitted (analyze_receipt e expense_id file_url) = []
     \<and> inserted (analyze_receipt e expense_id file_url) = []"
  by (auto simp: analyze_receipt_def)

theorem analyze_receipt_not_found_witness:
  "get_expense_data example_env ''e2'' = None
   \<and> returned (analyze_receipt example_env ''e2'' ''receipt.png'') = Inr Empty_result
   \<and> submitted (analyze_receipt example_env ''e2'' ''receipt.png'') = []
   \<and> inserted (analyze_receipt example_env ''e2'' ''receipt.png'') = []"
  using analyze_receipt_not_found [of example_env "''e2''" "''receipt.png''"] example_lookup(2)
  by blast

lemma merge_completed_returned:
  "merge_completed e
     (filter (\<lambda>a. case future_result e a of Raised err \<Rightarrow> False | Returned r \<Rightarrow> True) order) st
   = merge_completed e order st"
proof (induction order arbitrary: st)
  case Nil
  then show ?case by simp
next
  case (Cons a order)
  then show ?case by (cases "future_result e a") (simp_all add: merge_future_raised)
qed

lemma tool_round_records_pricing:
  "\<exists>calls c. make_online_verification_call True
      (Reply (Some [\<lparr>tool_name = ''check_pricing'',
                      tool_arguments = Some (JObj [(''vendor_name'', v), (''service_type'', s)])\<rparr>]))
      clk
    = JObj [(''verification_results'',
             JObj [(''pricing_info'', check_pricing (clk 0) v s JNull JNull)]),
            (''tool_calls'', calls), (''confidence_score'', c)]"
  by (simp add: make_online_verification_call_def execute_tool_def get_default_def)

lemma example_merged:
  "merge_completed example_env (completion_order example_env)
     (init_detector\<lparr>expense_category := Some ''travel''\<rparr>)
   = \<lparr>risk_factors = [JStr ''Amount looks altered''],
      verification_results =
        [(''travel_verification'',
          JObj [(''price_discrepancy'', JNum 0.6), (''route_verification'', JBool False)])],
      image_analysis_results = [],
      online_verification_results =
        [(''vendor_verification'', JObj []), (''amount_verification'', JObj []),
         (''date_verification'', JObj [])],
      expense_category = Some ''travel''\<rparr>"
  by (simp add: example_env_def example_outcomes_def merge_future_def extend_risk_factors_def
      update_verification_results_def update_image_analysis_results_def
      update_online_verification_results_def dict_update_def init_detector_def)

lemma example_scores:
  "calculate_risk_score
     \<lparr>risk_factors = [JStr ''Amount looks altered''],
      verification_results =
        [(''travel_verification'',
          JObj [(''price_discrepancy'', JNum 0.6), (''route_verification'', JBool False)])],
      image_analysis_results = [],
      online_verification_results =
        [(''vendor_verification'', JObj []), (''amount_verification'', JObj []),
         (''date_verification'', JObj [])],
      expense_category = Some ''travel''\<rparr> = 0.18"
  "calculate_fraud_probability
     \<lparr>risk_factors = [JStr ''Amount looks altered''],
      verification_results =
        [(''travel_verification'',
          JObj [(''price_discrepancy'', JNum 0.6), (''route_verification'', JBool False)])],
      image_analysis_results = [],
      online_verification_results =
        [(''vendor_verification'', JObj []), (''amount_verification'', JObj []),
         (''date_verification'', JObj [])],
      expense_category = Some ''travel''\<rparr> = 0.126"
  by (simp_all add: calculate_fraud_probability_def fraud_blend_def get_verification_confidence_def
      calculate_risk_score_def weighted_sum_def get_llm_risk_score_def get_image_risk_score_def
      get_verification_risk_score_def get_pattern_risk_score_def
      get_category_specific_risk_score_def category_risk_values_def
      price_discrepancy_values_def failed_check_values_def present_and_falsy_def)

text \<open>
  Claim C2. When the expense is found and the analysers are dispatched, then for every
  subset of the four parallel analysers that raise, \<open>analyze_receipt\<close> still returns a
  verdict. A raising analyser contributes nothing: the verdict carries the risk factors and
  the results of the state merged from the analysers that returned, in completion order, and
  the run is the run in which each raising analyser returned the empty dictionary. The
  overall risk score is the weighted sum of the scores of that state, in which the four
  parallel categories score 0: it is 0.2 times the category-specific score, which lies in
  [0,1]. When all four raise, no risk factor and no verification entry is recorded and the
  score is 0.
\<close>

theorem analyze_receipt_isolates_failures:
  "(get_expense_data e expense_id = Some expense_data \<and> truthy expense_data
     \<and> category_of expense_data = Inr cat \<longrightarrow>
   (\<exists>v st. returned (analyze_receipt e expense_id file_url) = Inr (Verdict v)
      \<and> st = merge_completed e
          (filter (\<lambda>a. case future_result e a of Raised err \<Rightarrow> False | Returned r \<Rightarrow> True)
             (completion_order e))
          (init_detector\<lparr>expense_category := Some cat\<rparr>)
      \<and> verdict_risk_factors v = risk_factors st
      \<and> verdict_verification_results v = verification_results st
      \<and> verdict_image_analysis_results v = image_analysis_results st
      \<and> verdict_online_verification_results v = online_verification_results st
      \<and> overall_risk_score v = calculate_risk_score st
      \<and> overall_risk_score v = weighted_sum (scores st)
      \<and> scores st Llm_analysis = 0 \<and> scores st Image_analysis = 0
      \<and> scores st Online_verification = 0 \<and> scores st Pattern_analysis = 0
      \<and> overall_risk_score v = 0.2 * get_category_specific_risk_score st
      \<and> 0 \<le> get_category_specific_risk_score st \<and> get_category_specific_risk_score st \<le> 1
      \<and> fraud_probability v = calculate_fraud_probability st
      \<and> ((\<forall>a. \<exists>err. future_result e a = Raised err) \<longrightarrow>
           verdict_risk_factors v = [] \<and> verdict_verification_results v = []
           \<and> overall_risk_score v = 0)))
   \<and> analyze_receipt (e\<lparr>future_result := silenced (future_result e)\<rparr>) expense_id file_url
       = analyze_receipt e expense_id file_url"
proof -
  have 1: "\<exists>v st. returned (analyze_receipt e expense_id file_url) = Inr (Verdict v)
      \<and> st = merge_completed e
          (filter (\<lambda>a. case future_result e a of Raised err \<Rightarrow> False | Returned r \<Rightarrow> True)
             (completion_order e))
          (init_detector\<lparr>expense_category := Some cat\<rparr>)
      \<and> verdict_risk_factors v = risk_factors st
      \<and> verdict_verification_results v = verification_results st
      \<and> verdict_image_analysis_results v = image_analysis_results st
      \<and> verdict_online_verification_results v = online_verification_results st
      \<and> overall_risk_score v = calculate_risk_score st
      \<and> overall_risk_score v = weighted_sum (scores st)
      \<and> scores st Llm_analysis = 0 \<and> scores st Image_analysis = 0
      \<and> scores st Online_verification = 0 \<and> scores st Pattern_analysis = 0
      \<and> overall_risk_score v = 0.2 * get_category_specific_risk_score st
      \<and> 0 \<le> get_category_specific_risk_score st \<and> get_category_specific_risk_score st \<le> 1
      \<and> fraud_probability v = calculate_fraud_probability st
      \<and> ((\<forall>a. \<exists>err. future_result e a = Raised err) \<longrightarrow>
           verdict_risk_factors v = [] \<and> verdict_verification_results v = []
           \<and> overall_risk_score v = 0)"
    if a: "get_expense_data e expense_id = Some expense_data \<and> truthy expense_data
     \<and> category_of expense_data = Inr cat"
  proof -
    obtain v st where v: "returned (analyze_receipt e expense_id file_url) = Inr (Verdict v)"
      and st0: "st = merge_completed e (completion_order e)
          (init_detector\<lparr>expense_category := Some cat\<rparr>)"
      and r: "overall_risk_score v = calculate_risk_score st"
      and p: "fraud_probability v = calculate_fraud_probability st"
      and f: "verdict_risk_factors v = risk_factors st"
      and vr: "verdict_verification_results v = verification_results st"
      and ir: "verdict_image_analysis_results v = image_analysis_results st"
      and ov: "verdict_online_verification_results v = online_verification_results st"
      using analyze_receipt_found [of e expense_id expense_data cat file_url] a by blast
    have st: "st = merge_completed e
          (filter (\<lambda>a. case future_result e a of Raised err \<Rightarrow> False | Returned r \<Rightarrow> True)
             (completion_order e))
          (init_detector\<lparr>expense_category := Some cat\<rparr>)"
      unfolding st0 by (simp only: merge_completed_returned)
    have w: "overall_risk_score v = weighted_sum (scores st)"
      using r by (simp add: calculate_risk_score_def)
    have z: "scores st Llm_analysis = 0" "scores st Image_analysis = 0"
      "scores st Online_verification = 0" "scores st Pattern_analysis = 0"
      by (simp_all add: scores_only_category)
    have c: "overall_risk_score v = 0.2 * get_category_specific_risk_score st"
      using r by (simp add: calculate_risk_score_def scores_only_category weighted_sum_def)
    have b: "0 \<le> get_category_specific_risk_score st"
      "get_category_specific_risk_score st \<le> 1"
      using category_specific_score_bounds [of st] by simp_all
    have q: "(\<forall>a. \<exists>err. future_result e a = Raised err) \<longrightarrow>
        verdict_risk_factors v = [] \<and> verdict_verification_results v = []
        \<and> overall_risk_score v = 0"
    proof
      assume "\<forall>a. \<exists>err. future_result e a = Raised err"
      then have s0: "st = init_detector\<lparr>expense_category := Some cat\<rparr>"
        using st0 merge_completed_all_raised by simp
      have e0: "risk_factors st = []" "verification_results st = []"
        unfolding s0 by (simp_all add: init_detector_def)
      have "get_category_specific_risk_score st = 0"
        using category_score_no_results [OF e0(2)] .
      then have "overall_risk_score v = 0" using c by simp
      then show "verdict_risk_factors v = [] \<and> verdict_verification_results v = []
        \<and> overall_risk_score v = 0"
        using f vr e0 by simp
    qed
    show ?thesis
      using v st f vr ir ov r w z c b p q by (intro exI conjI)
  qed
  show ?thesis
    using 1 analyze_receipt_silenced [of e expense_id file_url] by (intro conjI impI)
qed

theorem analyze_receipt_isolates_failures_witness:
  "get_expense_data example_env ''e1'' = Some travel_expense \<and> truthy travel_expense
   \<and> category_of travel_expense = Inr ''travel''
   \<and> future_result example_env Image_task = Raised ValueError
   \<and> future_result example_env Pattern_task = Raised KeyError
   \<and> filter (\<lambda>a. case future_result example_env a of Raised err \<Rightarrow> False | Returned r \<Rightarrow> True)
       (completion_order example_env) = [Online_task, Llm_task]
   \<and> (\<exists>v. returned (analyze_receipt example_env ''e1'' ''receipt.png'') = Inr (Verdict v)
        \<and> verdict_risk_factors v = [JStr ''Amount looks altered'']
        \<and> verdict_verification_results v =
            [(''travel_verification'',
              JObj [(''price_discrepancy'', JNum 0.6), (''route_verification'', JBool False)])]
        \<and> verdict_image_analysis_results v = []
        \<and> verdict_online_verification_results v =
            [(''vendor_verification'', JObj []), (''amount_verification'', JObj []),
             (''date_verification'', JObj [])]
        \<and> overall_risk_score v = 0.18
        \<and> fraud_probability v = 0.126)
   \<and> analyze_receipt (example_env\<lparr>future_result := silenced (future_result example_env)\<rparr>)
         ''e1'' ''receipt.png''
       = analyze_receipt example_env ''e1'' ''receipt.png''
   \<and> (\<forall>a. \<exists>err. future_result (example_env\<lparr>future_result := (\<lambda>a. Raised ValueError)\<rparr>) a
         = Raised err)
   \<and> (\<exists>v. returned (analyze_receipt (example_env\<lparr>future_result := (\<lambda>a. Raised ValueError)\<rparr>)
                ''e1'' ''receipt.png'') = Inr (Verdict v)
        \<and> verdict_risk_factors v = [] \<and> verdict_verification_results v = []
        \<and> overall_risk_score v = 0)"
proof -
  let ?returned = "\<lambda>e a. case future_result e a of Raised err \<Rightarrow> False | Returned r \<Rightarrow> True"
  let ?none = "example_env\<lparr>future_result := (\<lambda>a. Raised ValueError)\<rparr>"
  have o: "future_result example_env Image_task = Raised ValueError"
    "future_result example_env Pattern_task = Raised KeyError"
    by (simp_all add: example_env_def example_outcomes_def)
  have fl: "filter (?returned example_env) (completion_order example_env)
      = [Online_task, Llm_task]"
    by (simp add: example_env_def example_outcomes_def)
  have l: "get_expense_data example_env ''e1'' = Some travel_expense \<and> truthy travel_expense
     \<and> category_of travel_expense = Inr ''travel''"
    using example_lookup(1,3,4) by simp
  note t = analyze_receipt_isolates_failures
    [of example_env "''e1''" travel_expense "''travel''" "''receipt.png''"]
  obtain v st where v: "returned (analyze_receipt example_env ''e1'' ''receipt.png'')
        = Inr (Verdict v)"
    and st: "st = merge_completed example_env
        (filter (?returned example_env) (completion_order example_env))
        (init_detector\<lparr>expense_category := Some ''travel''\<rparr>)"
    and f: "verdict_risk_factors v = risk_factors st"
    and vr: "verdict_verification_results v = verification_results st"
    and ir: "verdict_image_analysis_results v = image_analysis_results st"
    and ov: "verdict_online_verification_results v = online_verification_results st"
    and r: "overall_risk_score v = calculate_risk_score st"
    and p: "fraud_probability v = calculate_fraud_probability st"
    using t [THEN conjunct1, THEN mp, OF l] by blast
  have m: "st = \<lparr>risk_factors = [JStr ''Amount looks altered''],
      verification_results =
        [(''travel_verification'',
          JObj [(''price_discrepancy'', JNum 0.6), (''route_verification'', JBool False)])],
      image_analysis_results = [],
      online_verification_results =
        [(''vendor_verification'', JObj []), (''amount_verification'', JObj []),
         (''date_verification'', JObj [])],
      expense_category = Some ''travel''\<rparr>"
    unfolding st by (simp only: merge_completed_returned example_merged)
  have 1: "\<exists>v. returned (analyze_receipt example_env ''e1'' ''receipt.png'') = Inr (Verdict v)
        \<and> verdict_risk_factors v = [JStr ''Amount looks altered'']
        \<and> verdict_verification_results v =
            [(''travel_verification'',
              JObj [(''price_discrepancy'', JNum 0.6), (''route_verification'', JBool False)])]
        \<and> verdict_image_analysis_results v = []
        \<and> verdict_online_verification_results v =
            [(''vendor_verification'', JObj []), (''amount_verification'', JObj []),
             (''date_verification'', JObj [])]
        \<and> overall_risk_score v = 0.18
        \<and> fraud_probability v = 0.126"
    using v f vr ir ov r p unfolding m example_scores by simp
  have 2: "analyze_receipt (example_env\<lparr>future_result := silenced (future_result example_env)\<rparr>)
         ''e1'' ''receipt.png''
       = analyze_receipt example_env ''e1'' ''receipt.png''"
    using t [THEN conjunct2] .
  have a: "\<forall>a. \<exists>err. future_result ?none a = Raised err"
    by simp
  have g: "get_expense_data ?none ''e1'' = Some travel_expense \<and> truthy travel_expense
     \<and> category_of travel_expense = Inr ''travel''"
    using l by (simp add: get_expense_data_silenced)
  have 3: "\<exists>v. returned (analyze_receipt ?none ''e1'' ''receipt.png'') = Inr (Verdict v)
        \<and> verdict_risk_factors v = [] \<and> verdict_verification_results v = []
        \<and> overall_risk_score v = 0"
    using analyze_receipt_isolates_failures
      [of ?none "''e1''" travel_expense "''travel''" "''receipt.png''", THEN conjunct1, THEN mp,
        OF g] a
    by blast
  show ?thesis using l o fl 1 2 a 3 by (intro conjI) simp_all
qed

text \<open>
  Claim C9 at its scenario. The tool round itself runs the pricing check without location
  and date and records the result under \<open>pricing_info\<close>; but the category verification
  awaits the dictionary the round returned, which raises, and answers with the empty
  dictionary, so the verdict's verification results carry no \<open>pricing_info\<close>.
\<close>

theorem category_verification_drops_pricing_info:
  "(\<exists>calls c. make_online_verification_call True (Reply (Some [pricing_call]))
        (clock example_env)
      = JObj [(''verification_results'',
               JObj [(''pricing_info'',
                      check_pricing ''2024-03-01T10:00:00'' (JStr ''CityCab'') (JStr ''ride'')
                        JNull JNull)]),
              (''tool_calls'', calls), (''confidence_score'', c)])
   \<and> fst (category_specific_verification True (Reply (Some [pricing_call])) (clock example_env)
        (init_detector\<lparr>expense_category := Some ''travel''\<rparr>)) = JObj []
   \<and> (\<exists>v. returned (analyze_receipt example_env ''e1'' ''receipt.png'') = Inr (Verdict v)
        \<and> map_of (verdict_verification_results v) ''pricing_info'' = None)"
proof -
  have 1: "\<exists>calls c. make_online_verification_call True (Reply (Some [pricing_call]))
        (clock example_env)
      = JObj [(''verification_results'',
               JObj [(''pricing_info'',
                      check_pricing ''2024-03-01T10:00:00'' (JStr ''CityCab'') (JStr ''ride'')
                        JNull JNull)]),
              (''tool_calls'', calls), (''confidence_score'', c)]"
    using tool_round_records_pricing [of "JStr ''CityCab''" "JStr ''ride''" "clock example_env"]
    by (simp add: pricing_call_def example_env_def)
  obtain v where v: "returned (analyze_receipt example_env ''e1'' ''receipt.png'') = Inr (Verdict v)"
    and vr: "verdict_verification_results v = verification_results
      (merge_completed example_env (completion_order example_env)
         (init_detector\<lparr>expense_category := Some ''travel''\<rparr>))"
    using analyze_receipt_found [OF example_lookup(1,3,4), of "''receipt.png''"] by blast
  have 3: "map_of (verdict_verification_results v) ''pricing_info'' = None"
    unfolding vr example_merged by simp
  show ?thesis
    using 1 v 3 by (simp add: category_specific_verification_empty)
qed

end
